theory Spec2Isabelle
  imports Complex_Main
begin

chapter \<open>The model\<close>

section \<open>Python values shared by the models\<close>

text \<open>
  The exceptions the modelled code raises or catches. \<open>BrowserError\<close> stands for any
  exception of the browser driver other than its \<open>TimeoutException\<close>,
  \<open>RequestError\<close> for any exception of the HTTP session before a response is there,
  \<open>HTTPError\<close> for the one of its status check, \<open>ParserError\<close> for any exception of the
  markup parser, \<open>IOError\<close> for a failing file operation.
\<close>

datatype py_exn =
    ValueError | TypeError | OverflowError
  | TimeoutException | BrowserError | RequestError | HTTPError | ParserError | IOError

section \<open>Enrichment chunk partition (saas\_scraper.py, scrape\_all\_company\_profiles)\<close>

text \<open>
  \<^verbatim>\<open>range(i, n, c)\<close> for a positive step: \<open>i, i + c, i + 2c, ...\<close> while below \<open>n\<close>.
\<close>

function range_from :: "nat \<Rightarrow> nat \<Rightarrow> nat \<Rightarrow> nat list" where
  "range_from i n c = (if 0 < c \<and> i < n then i # range_from (i + c) n c else [])"
  by pat_completeness auto
termination
  by (relation "measure (\<lambda>(i, n, c). n - i)") auto

declare range_from.simps [simp del]

text \<open>The slice \<^verbatim>\<open>xs[i:j]\<close> for \<open>0 \<le> i \<le> j\<close>; Python clips it at the end of the list.\<close>

definition slice :: "'a list \<Rightarrow> nat \<Rightarrow> nat \<Rightarrow> 'a list" where
  "slice xs i j = take (j - i) (drop i xs)"

text \<open>
  \<^verbatim>\<open>[companies_list[i:i + chunk_size] for i in range(0, len(companies_list), chunk_size)]\<close>.
  The chunk size is a Python integer read from the configuration: \<^verbatim>\<open>range\<close> raises
  \<open>ValueError\<close> on a zero step and is empty for a negative one.
\<close>

definition company_chunks :: "'a list \<Rightarrow> int \<Rightarrow> py_exn + 'a list list" where
  "company_chunks companies_list chunk_size =
     (if chunk_size = 0 then Inl ValueError
      else if chunk_size < 0 then Inr []
      else Inr (map (\<lambda>i. slice companies_list i (i + nat chunk_size))
                  (range_from 0 (length companies_list) (nat chunk_size))))"

section \<open>Python strings (built-ins used by the code)\<close>

text \<open>
  A Python \<open>str\<close> is modelled as a \<open>string\<close>, one \<open>char\<close> per code point, so
  \<open>length\<close> is Python's \<open>len\<close> and the strings of the model are those of code points
  below 256. Among these, \<^verbatim>\<open>str.isspace\<close> holds of the code points 9 to 13, 28 to 32, 133
  and 160; these are what \<^verbatim>\<open>str.strip()\<close> removes and what separates the words of a
  \<open>class\<close> attribute. \<open>upper\<close> and \<open>lower\<close> are modelled on the ASCII letters, which is
  all the modelled code looks at after them (the letters \<open>K\<close> and \<open>M\<close>, the ASCII
  blocking indicators); any other character is kept as it is.
\<close>

definition is_space :: "char \<Rightarrow> bool" where
  "is_space c =
     (let n = (of_char c :: nat)
      in (9 \<le> n \<and> n \<le> 13) \<or> (28 \<le> n \<and> n \<le> 32) \<or> n = 133 \<or> n = 160)"

definition py_strip :: "string \<Rightarrow> string" where
  "py_strip s = rev (dropWhile is_space (rev (dropWhile is_space s)))"

definition upper_char :: "char \<Rightarrow> char" where
  "upper_char c =
     (case map_of (zip ''abcdefghijklmnopqrstuvwxyz'' ''ABCDEFGHIJKLMNOPQRSTUVWXYZ'') c of
        Some u \<Rightarrow> u | None \<Rightarrow> c)"

definition lower_char :: "char \<Rightarrow> char" where
  "lower_char c =
     (case map_of (zip ''ABCDEFGHIJKLMNOPQRSTUVWXYZ'' ''abcdefghijklmnopqrstuvwxyz'') c of
        Some l \<Rightarrow> l | None \<Rightarrow> c)"

definition py_upper :: "string \<Rightarrow> string" where
  "py_upper s = map upper_char s"

definition py_lower :: "string \<Rightarrow> string" where
  "py_lower s = map lower_char s"

text \<open>\<^verbatim>\<open>s.startswith(p)\<close> and the substring test \<^verbatim>\<open>sub in s\<close>.\<close>

fun py_startswith :: "'a list \<Rightarrow> 'a list \<Rightarrow> bool" where
  "py_startswith s [] = True"
| "py_startswith [] (p # ps) = False"
| "py_startswith (c # cs) (p # ps) = (c = p \<and> py_startswith cs ps)"

fun py_in :: "'a list \<Rightarrow> 'a list \<Rightarrow> bool" where
  "py_in sub [] = (sub = [])"
| "py_in sub (c # cs) = (py_startswith (c # cs) sub \<or> py_in sub cs)"

text \<open>\<^verbatim>\<open>s.replace(k, '')\<close> for a one-character \<open>k\<close>: every occurrence is removed.\<close>

definition py_remove_char :: "char \<Rightarrow> string \<Rightarrow> string" where
  "py_remove_char k s = filter (\<lambda>c. c \<noteq> k) s"

section \<open>Python numbers: \<open>int(str)\<close>, \<open>float(str)\<close>, float arithmetic, \<open>int(float)\<close>\<close>

definition is_digit :: "char \<Rightarrow> bool" where
  "is_digit c = (c \<in> set ''0123456789'')"

definition digit_val :: "char \<Rightarrow> nat" where
  "digit_val c = of_char c - 48"

text \<open>
  A digit part is \<open>digit (["_"] digit)*\<close>: an underscore is accepted only between two
  digits. The result is the value read, the number of digits and the rest of the input.
\<close>

fun digits_loop :: "nat \<Rightarrow> nat \<Rightarrow> string \<Rightarrow> nat \<times> nat \<times> string" where
  "digits_loop v n [] = (v, n, [])"
| "digits_loop v n [c] = (if is_digit c then (10 * v + digit_val c, Suc n, []) else (v, n, [c]))"
| "digits_loop v n (c # d # ds) =
     (if is_digit c then digits_loop (10 * v + digit_val c) (Suc n) (d # ds)
      else if c = CHR ''_'' \<and> is_digit d then digits_loop (10 * v + digit_val d) (Suc n) ds
      else (v, n, c # d # ds))"

definition digitpart :: "string \<Rightarrow> (nat \<times> nat \<times> string) option" where
  "digitpart s =
     (case s of
        [] \<Rightarrow> None
      | c # cs \<Rightarrow> if is_digit c then Some (digits_loop (digit_val c) 1 cs) else None)"

definition take_sign :: "string \<Rightarrow> bool \<times> string" where
  "take_sign s =
     (case s of
        [] \<Rightarrow> (False, [])
      | c # cs \<Rightarrow> if c = CHR ''-'' then (True, cs) else if c = CHR ''+'' then (False, cs) else (False, s))"

text \<open>
  The white space \<^verbatim>\<open>int(s)\<close> and \<^verbatim>\<open>float(s)\<close> skip around a number is narrower than that
  of \<^verbatim>\<open>str.strip()\<close>: the code points 9 to 13, 32, 133 and 160, not 28 to 31.
\<close>

definition is_num_space :: "char \<Rightarrow> bool" where
  "is_num_space c =
     (let n = (of_char c :: nat) in (9 \<le> n \<and> n \<le> 13) \<or> n = 32 \<or> n = 133 \<or> n = 160)"

definition num_strip :: "string \<Rightarrow> string" where
  "num_strip s = rev (dropWhile is_num_space (rev (dropWhile is_num_space s)))"

text \<open>
  \<^verbatim>\<open>int(s)\<close> in base ten: \<open>ValueError\<close> unless \<open>s\<close>, with the white space around it
  skipped, is a signed digit part, and also when it has more than 4300 digits (the
  interpreter's default limit on the conversion of a text to an integer).
\<close>

definition py_int :: "string \<Rightarrow> py_exn + int" where
  "py_int s0 =
     (let (neg, s) = take_sign (num_strip s0) in
      case digitpart s of
        Some (v, n, []) \<Rightarrow> if 4300 < n then Inl ValueError else Inr (if neg then - int v else int v)
      | _ \<Rightarrow> Inl ValueError)"

text \<open>
  A Python \<open>float\<close> is an IEEE 754 double: \<open>Finite neg m e\<close> is \<open>\<plusminus> m * 2 ^ e\<close> with
  \<open>m \<le> 2 ^ 53\<close> and \<open>- 1074 \<le> e\<close>.
\<close>

datatype py_float = Finite bool nat int | Infinity bool | NaN

fun bitlen :: "nat \<Rightarrow> nat" where
  "bitlen n = (if n = 0 then 0 else Suc (bitlen (n div 2)))"

declare bitlen.simps [simp del]

text \<open>The quotient \<open>a / b\<close> rounded to the nearest integer, ties to the even one.\<close>

definition rne_div :: "nat \<Rightarrow> nat \<Rightarrow> nat" where
  "rne_div a b =
     (let q = a div b; r = a mod b in
      if 2 * r < b then q
      else if b < 2 * r then q + 1
      else if even q then q else q + 1)"

text \<open>
  \<open>round_double neg num den\<close> is the double nearest to \<open>\<plusminus> num / den\<close> (ties to even),
  as \<open>float(str)\<close> and every float operation of Python round: \<open>e\<close> is the binary exponent of
  the quotient (at least \<open>- 1022\<close>, where the subnormal numbers begin), the mantissa has 53
  bits, and a result of \<open>2 ^ 1024\<close> or more is an infinity.
\<close>

definition round_double :: "bool \<Rightarrow> nat \<Rightarrow> nat \<Rightarrow> py_float" where
  "round_double neg num den =
     (if num = 0 then Finite neg 0 0
      else
        let d = int (bitlen num) - int (bitlen den);
            e0 = (if (if 0 \<le> d then den * 2 ^ nat d \<le> num else den \<le> num * 2 ^ nat (- d))
                  then d else d - 1);
            e = max e0 (- 1022);
            k = e - 52;
            m = (if 0 \<le> k then rne_div num (den * 2 ^ nat k) else rne_div (num * 2 ^ nat (- k)) den)
        in if 1024 \<le> e \<or> (e = 1023 \<and> m = 2 ^ 53) then Infinity neg else Finite neg m k)"

text \<open>The mantissa digits, the number of digits after the point, and the rest.\<close>

definition float_number :: "string \<Rightarrow> (nat \<times> nat \<times> string) option" where
  "float_number s =
     (case digitpart s of
        Some (ip, n, r) \<Rightarrow>
          (case r of
             [] \<Rightarrow> Some (ip, 0, [])
           | c # r1 \<Rightarrow>
               if c = CHR ''.'' then
                 (case digitpart r1 of
                    Some (fp, fd, r2) \<Rightarrow> Some (ip * 10 ^ fd + fp, fd, r2)
                  | None \<Rightarrow> Some (ip, 0, r1))
               else Some (ip, 0, r))
      | None \<Rightarrow>
          (case s of
             [] \<Rightarrow> None
           | c # r1 \<Rightarrow>
               if c = CHR ''.'' then
                 (case digitpart r1 of
                    Some (fp, fd, r2) \<Rightarrow> Some (fp, fd, r2)
                  | None \<Rightarrow> None)
               else None))"

text \<open>The optional exponent, which must end the input.\<close>

definition float_exponent :: "string \<Rightarrow> int option" where
  "float_exponent r =
     (case r of
        [] \<Rightarrow> Some 0
      | c # r1 \<Rightarrow>
          if c = CHR ''e'' \<or> c = CHR ''E'' then
            (let (neg, r2) = take_sign r1 in
             case digitpart r2 of
               Some (v, n, []) \<Rightarrow> Some (if neg then - int v else int v)
             | _ \<Rightarrow> None)
          else None)"

definition decimal_to_double :: "bool \<Rightarrow> nat \<Rightarrow> int \<Rightarrow> py_float" where
  "decimal_to_double neg mant ex =
     (if 0 \<le> ex then round_double neg (mant * 10 ^ nat ex) 1
      else round_double neg mant (10 ^ nat (- ex)))"

text \<open>
  \<^verbatim>\<open>float(s)\<close>: the white space around is skipped, then a sign and \<open>inf\<close>, \<open>infinity\<close>, \<open>nan\<close> (in
  any letter case) or a decimal number with an optional exponent; anything else is a
  \<open>ValueError\<close>. A decimal too large for a double is an infinity, not an error.
\<close>

definition py_float :: "string \<Rightarrow> py_exn + py_float" where
  "py_float s0 =
     (let (neg, s) = take_sign (num_strip s0); u = py_upper s in
      if u = ''INF'' \<or> u = ''INFINITY'' then Inr (Infinity neg)
      else if u = ''NAN'' then Inr NaN
      else
        case float_number s of
          None \<Rightarrow> Inl ValueError
        | Some (mant, fd, r) \<Rightarrow>
            (case float_exponent r of
               None \<Rightarrow> Inl ValueError
             | Some ex \<Rightarrow> Inr (decimal_to_double neg mant (ex - int fd))))"

text \<open>\<^verbatim>\<open>x * c\<close> for a float \<open>x\<close> and a positive integer constant \<open>c\<close> (exact as a double).\<close>

definition py_float_mul :: "py_float \<Rightarrow> nat \<Rightarrow> py_float" where
  "py_float_mul x c =
     (case x of
        Finite neg m e \<Rightarrow>
          if 0 \<le> e then round_double neg (m * c * 2 ^ nat e) 1
          else round_double neg (m * c) (2 ^ nat (- e))
      | Infinity neg \<Rightarrow> Infinity neg
      | NaN \<Rightarrow> NaN)"

text \<open>
  \<^verbatim>\<open>int(x)\<close> for a float: truncation towards zero; \<open>OverflowError\<close> on an infinity,
  \<open>ValueError\<close> on a NaN.
\<close>

definition py_int_of_float :: "py_float \<Rightarrow> py_exn + int" where
  "py_int_of_float x =
     (case x of
        Finite neg m e \<Rightarrow>
          (let a = (if 0 \<le> e then m * 2 ^ nat e else m div 2 ^ nat (- e))
           in Inr (if neg then - int a else int a))
      | Infinity neg \<Rightarrow> Inl OverflowError
      | NaN \<Rightarrow> Inl ValueError)"

section \<open>Employee-count parsing (data\_extractor.py, convert\_employee\_count)\<close>

text \<open>
  The body of the \<^verbatim>\<open>try\<close>. The upper-cased string is kept by the caller; \<open>Inl\<close> is the
  exception raised.
\<close>

definition employee_count_body :: "string \<Rightarrow> py_exn + int" where
  "employee_count_body count_str =
     (if py_in ''K'' count_str then
        (case py_float (py_remove_char (CHR ''K'') count_str) of
           Inl ex \<Rightarrow> Inl ex
         | Inr number \<Rightarrow> py_int_of_float (py_float_mul number 1000))
      else if py_in ''M'' count_str then
        (case py_float (py_remove_char (CHR ''M'') count_str) of
           Inl ex \<Rightarrow> Inl ex
         | Inr number \<Rightarrow> py_int_of_float (py_float_mul number 1000000))
      else py_int count_str)"

text \<open>
  \<^verbatim>\<open>except (ValueError, TypeError)\<close> returns \<open>None\<close>; any other exception leaves the
  function. \<open>Inr None\<close> is Python's \<open>None\<close>, \<open>Inr (Some n)\<close> the integer \<open>n\<close>,
  \<open>Inl ex\<close> the exception that reaches the caller.
\<close>

definition convert_employee_count :: "string \<Rightarrow> py_exn + int option" where
  "convert_employee_count count_str =
     (case employee_count_body (py_upper (py_strip count_str)) of
        Inr n \<Rightarrow> Inr (Some n)
      | Inl ex \<Rightarrow> if ex = ValueError \<or> ex = TypeError then Inr None else Inl ex)"

section \<open>Records as Python dictionaries\<close>

datatype pyval = PNone | PStr string | PInt int

text \<open>Python's truth value of a field: \<open>None\<close>, the empty string and \<open>0\<close> are false.\<close>

fun truthy :: "pyval \<Rightarrow> bool" where
  "truthy PNone = False"
| "truthy (PStr s) = (s \<noteq> [])"
| "truthy (PInt n) = (n \<noteq> 0)"

text \<open>
  A \<open>dict\<close> keeps its keys in insertion order: an association list without repeated
  keys. \<open>dict_set\<close> is \<^verbatim>\<open>d[k] = v\<close>, \<open>dict_get\<close> is \<^verbatim>\<open>d.get(k)\<close> (\<open>None\<close> for a
  missing key), \<open>dict_merge a b\<close> is the display \<^verbatim>\<open>{**a, **b}\<close>, which stores the items
  of \<open>a\<close> and then those of \<open>b\<close>.
\<close>

type_synonym dict = "(string \<times> pyval) list"

definition dict_get :: "dict \<Rightarrow> string \<Rightarrow> pyval option" where
  "dict_get d k = map_of d k"

fun dict_set :: "string \<Rightarrow> pyval \<Rightarrow> dict \<Rightarrow> dict" where
  "dict_set k v [] = [(k, v)]"
| "dict_set k v ((k', v') # d) = (if k' = k then (k, v) # d else (k', v') # dict_set k v d)"

definition dict_merge :: "dict \<Rightarrow> dict \<Rightarrow> dict" where
  "dict_merge a b = fold (\<lambda>(k, v). dict_set k v) b a"

text \<open>The invariant of the representation: a dictionary has no key twice.\<close>

definition is_dict :: "dict \<Rightarrow> bool" where
  "is_dict d = distinct (map fst d)"

text \<open>
  The test \<^verbatim>\<open>if company_data['Company Name']:\<close> of every scraping path. It stands inside a
  \<^verbatim>\<open>try\<close> whose handler skips the row, so a missing key (a \<open>KeyError\<close>) skips the row as a
  false value does.
\<close>

definition has_name :: "dict \<Rightarrow> bool" where
  "has_name company_data =
     (case dict_get company_data ''Company Name'' of Some v \<Rightarrow> truthy v | None \<Rightarrow> False)"

section \<open>Parsed markup (the part of BeautifulSoup the extractor uses)\<close>

text \<open>
  A node is an element (tag name, attributes, children) or a text. The parsed document
  \<^verbatim>\<open>BeautifulSoup(markup, 'html.parser')\<close> is an element too, whose children are the top
  level nodes.
\<close>

datatype html = Element string "(string \<times> string) list" "html list" | Text string

fun descendants :: "html \<Rightarrow> html list" where
  "descendants (Text s) = []"
| "descendants (Element t as cs) = concat (map (\<lambda>c. c # descendants c) cs)"

fun all_strings :: "html \<Rightarrow> string list" where
  "all_strings (Text s) = [s]"
| "all_strings (Element t as cs) = concat (map all_strings cs)"

text \<open>\<^verbatim>\<open>el.get_text(strip=True)\<close>: the texts below \<open>el\<close>, each stripped, the empty ones left out.\<close>

definition get_text_strip :: "html \<Rightarrow> string" where
  "get_text_strip el = concat (filter (\<lambda>s. s \<noteq> []) (map py_strip (all_strings el)))"

text \<open>The words of a \<open>class\<close> attribute: the maximal runs without white space.\<close>

fun split_ws :: "string \<Rightarrow> string \<Rightarrow> string list" where
  "split_ws cur [] = (if cur = [] then [] else [cur])"
| "split_ws cur (c # cs) =
     (if is_space c then (if cur = [] then split_ws [] cs else cur # split_ws [] cs)
      else split_ws (cur @ [c]) cs)"

definition tag_of :: "html \<Rightarrow> string option" where
  "tag_of el = (case el of Element t as cs \<Rightarrow> Some t | Text s \<Rightarrow> None)"

definition attr :: "html \<Rightarrow> string \<Rightarrow> string option" where
  "attr el k = (case el of Element t as cs \<Rightarrow> map_of as k | Text s \<Rightarrow> None)"

text \<open>
  The keyword \<^verbatim>\<open>class_=cls\<close> for a class name without white space, as all class names
  of the extractor are: one of the words of the element's \<open>class\<close> attribute is \<open>cls\<close>.
\<close>

definition has_class :: "html \<Rightarrow> string \<Rightarrow> bool" where
  "has_class el cls =
     (case attr el ''class'' of None \<Rightarrow> False | Some v \<Rightarrow> cls \<in> set (split_ws [] v))"

text \<open>
  \<^verbatim>\<open>el.find_all(tag, ...)\<close> lists the matching elements below \<open>el\<close> in document order,
  \<^verbatim>\<open>el.find(tag, ...)\<close> is the first of them or \<open>None\<close>. The further condition (a class, an
  \<open>href\<close> pattern) is the predicate \<open>ok\<close>.
\<close>

definition find_all :: "html \<Rightarrow> string \<Rightarrow> (html \<Rightarrow> bool) \<Rightarrow> html list" where
  "find_all el tag ok = filter (\<lambda>d. tag_of d = Some tag \<and> ok d) (descendants el)"

definition find_first :: "html \<Rightarrow> string \<Rightarrow> (html \<Rightarrow> bool) \<Rightarrow> html option" where
  "find_first el tag ok = (case find_all el tag ok of [] \<Rightarrow> None | d # ds \<Rightarrow> Some d)"

text \<open>
  The two \<open>href\<close> patterns, searched anywhere in the value: \<^verbatim>\<open>linkedin\.com\<close> and
  \<^verbatim>\<open>//[^/]+\<close> (two slashes followed by a character that is not a slash).
\<close>

definition href_linkedin :: "html \<Rightarrow> bool" where
  "href_linkedin el = (case attr el ''href'' of None \<Rightarrow> False | Some h \<Rightarrow> py_in ''linkedin.com'' h)"

fun slashes_then_other :: "string \<Rightarrow> bool" where
  "slashes_then_other (a # b # c # r) =
     ((a = CHR ''/'' \<and> b = CHR ''/'' \<and> c \<noteq> CHR ''/'') \<or> slashes_then_other (b # c # r))"
| "slashes_then_other r = False"

definition href_website :: "html \<Rightarrow> bool" where
  "href_website el = (case attr el ''href'' of None \<Rightarrow> False | Some h \<Rightarrow> slashes_then_other h)"

section \<open>Row extraction (data\_extractor.py, extract\_company\_data\_from\_card)\<close>

definition company_keys :: "string list" where
  "company_keys =
     [''Company Name'', ''Company Linkedin Url'', ''Company Hyperlink'', ''Company Website URL'',
      ''Revenue'', ''Funding'', ''Growth'', ''Founder Name'', ''Location'', ''Industry'']"

definition empty_company_data :: dict where
  "empty_company_data = map (\<lambda>k. (k, PNone)) company_keys"

definition row_cells :: "html \<Rightarrow> html list" where
  "row_cells card_element = find_all card_element ''td'' (\<lambda>d. has_class d ''data-table_cell__a_9gs'')"

text \<open>Cell 1: the name, the profile link, the LinkedIn link and the website.\<close>

definition set_name_fields :: "(string \<Rightarrow> string \<Rightarrow> string) \<Rightarrow> html \<Rightarrow> dict \<Rightarrow> dict" where
  "set_name_fields urljoin name_cell d0 =
     (let d1 =
        (case find_first name_cell ''a'' (\<lambda>d. has_class d ''cells_link__PfQot'') of
           None \<Rightarrow> d0
         | Some name_link \<Rightarrow>
             (let d = dict_set ''Company Name'' (PStr (get_text_strip name_link)) d0 in
              case attr name_link ''href'' of
                None \<Rightarrow> d
              | Some href \<Rightarrow>
                  if href = [] then d
                  else if py_startswith href ''/'' then
                    dict_set ''Company Hyperlink'' (PStr (urljoin ''https://getlatka.com'' href)) d
                  else dict_set ''Company Hyperlink'' (PStr href) d));
          d2 =
        (case find_first name_cell ''a'' href_linkedin of
           None \<Rightarrow> d1
         | Some linkedin_link \<Rightarrow>
             dict_set ''Company Linkedin Url''
               (case attr linkedin_link ''href'' of None \<Rightarrow> PNone | Some h \<Rightarrow> PStr h) d1)
      in
        (case find_first name_cell ''a'' href_website of
           None \<Rightarrow> d2
         | Some website_link \<Rightarrow>
             (case attr website_link ''href'' of
                None \<Rightarrow> d2
              | Some href \<Rightarrow>
                  if href \<noteq> [] \<and> py_startswith href ''//''
                  then dict_set ''Company Website URL'' (PStr (''https:'' @ href)) d2
                  else d2)))"

text \<open>Cells 2, 6 and 8: the text of the cell unless it holds a lock button.\<close>

definition set_unlocked_text :: "string \<Rightarrow> html \<Rightarrow> dict \<Rightarrow> dict" where
  "set_unlocked_text key cell d =
     (case find_first cell ''button'' (\<lambda>b. has_class b ''btn_lock'') of
        Some lock_button \<Rightarrow> d
      | None \<Rightarrow> (let txt = get_text_strip cell in if txt \<noteq> [] then dict_set key (PStr txt) d else d))"

text \<open>Cells 9, 13 and 14: the text of the first link that satisfies \<open>ok\<close>.\<close>

definition set_link_text :: "string \<Rightarrow> (html \<Rightarrow> bool) \<Rightarrow> html \<Rightarrow> dict \<Rightarrow> dict" where
  "set_link_text key ok cell d =
     (case find_first cell ''a'' ok of
        None \<Rightarrow> d
      | Some link \<Rightarrow> (let txt = get_text_strip link in if txt \<noteq> [] then dict_set key (PStr txt) d else d))"

text \<open>
  The extractor. \<open>urljoin\<close> is the function of that name of Python's \<open>urllib.parse\<close>, taken
  as a parameter. With fewer than 14 cells the record is returned as it was initialised.
  On parsed markup no step of the \<^verbatim>\<open>try\<close> block raises, so its handler has no branch here.
\<close>

definition extract_company_data_from_card ::
    "(string \<Rightarrow> string \<Rightarrow> string) \<Rightarrow> html \<Rightarrow> dict" where
  "extract_company_data_from_card urljoin card_element =
     (let company_data = empty_company_data; cells = row_cells card_element in
      if length cells < 14 then company_data
      else
        let d1 = (if 1 < length cells then set_name_fields urljoin (cells ! 1) company_data else company_data);
            d2 = (if 2 < length cells then set_unlocked_text ''Revenue'' (cells ! 2) d1 else d1);
            d3 = (if 6 < length cells then set_unlocked_text ''Funding'' (cells ! 6) d2 else d2);
            d4 = (if 8 < length cells then set_unlocked_text ''Growth'' (cells ! 8) d3 else d3);
            d5 = (if 9 < length cells
                  then set_link_text ''Founder Name'' (\<lambda>a. has_class a ''cells_name__pBrsJ'') (cells ! 9) d4
                  else d4);
            d6 = (if 13 < length cells then set_link_text ''Location'' (\<lambda>a. True) (cells ! 13) d5 else d5)
        in
          if 14 < length cells
          then set_link_text ''Industry'' (\<lambda>a. has_class a ''saas-companies_ellipses__Y9AeV'') (cells ! 14) d6
          else d6)"

section \<open>The scraper object and what it observes of the world\<close>

text \<open>
  The configuration keys the modelled code reads (\<^verbatim>\<open>self.config\<close>) and whether
  \<^verbatim>\<open>self.driver\<close> is set. The delay between requests is in seconds. \<open>chunk_size\<close> is
  read with a default, so it may be absent.
\<close>

record config =
  base_url :: string
  pages_to_scrape :: int
  delay_between_requests :: int
  request_timeout :: nat
  use_selenium :: bool
  chunk_size :: "int option"

record scraper =
  config :: config
  driver :: bool

definition browser_on :: "scraper \<Rightarrow> bool" where
  "browser_on self = (use_selenium (config self) \<and> driver self)"

text \<open>
  The code is a function of what the browser, the network and the file system answer.
  Each answer is an observation: \<open>Inl ex\<close> (or \<open>Some ex\<close> for a call without a result) when
  the call raises \<open>ex\<close>. The requests the code makes are returned as a log of events.
\<close>

datatype event = BrowserGet string | HttpGet string nat | SaveJson string

text \<open>
  The answer to \<^verbatim>\<open>session.get\<close>: the status code and the body. \<^verbatim>\<open>raise_for_status()\<close> is
  the method of the \<open>requests\<close> library: it raises its \<open>HTTPError\<close> for a status from 400
  to 599 and returns for every other status.
\<close>

record http_response =
  status_code :: nat
  body_text :: string

definition raise_for_status :: "http_response \<Rightarrow> py_exn option" where
  "raise_for_status response =
     (if 400 \<le> status_code response \<and> status_code response < 600 then Some HTTPError else None)"

text \<open>
  What one call of \<^verbatim>\<open>_get_page_content\<close> observes: the browser loading the URL
  (\<^verbatim>\<open>driver.get\<close>), the browser waiting for the body and giving the page source, and the
  HTTP request.
\<close>

record fetch_obs =
  driver_get :: "py_exn option"
  browser_load :: "py_exn + string"
  session_get :: "py_exn + http_response"

text \<open>
  A row element of the live page: its \<^verbatim>\<open>outerHTML\<close> attribute and the text of its name
  link (\<^verbatim>\<open>find_element(By.CSS_SELECTOR, "a.cells_link__PfQot").text\<close>).
\<close>

record web_row =
  outer_html :: "py_exn + string"
  name_link_text :: "py_exn + string"

text \<open>
  What one call of \<^verbatim>\<open>_navigate_to_next_page\<close> observes, in the order of the code. The
  overlay handling and the simulated interactions swallow their own exceptions and return
  nothing, so they have no observation.
\<close>

record nav_obs =
  rows_before :: "py_exn + web_row list"
  next_button :: "py_exn option"
  scroll_into_view :: "py_exn option"
  js_click :: "py_exn option"
  native_click :: "py_exn option"
  ajax_polls :: "(py_exn + nat) list"
  rows_after :: "py_exn + web_row list"

text \<open>
  What one round of the browser loop of \<^verbatim>\<open>scrape_companies_list\<close> observes on a page:
  the wait for rows, the page source read after a timeout, the rows found, and the
  navigation that follows.
\<close>

record page_obs =
  wait_rows :: "py_exn option"
  source_after_timeout :: "py_exn + string"
  found_rows :: "py_exn + web_row list"
  navigation :: nav_obs

text \<open>
  The world of a run. Four library functions are functions of their input only:
  \<open>parse_html\<close> is \<^verbatim>\<open>BeautifulSoup(markup, 'html.parser')\<close>, which raises on markup the
  parser rejects; \<open>urljoin\<close> is the function of that name; \<open>profile_of\<close> is the profile
  extractor \<^verbatim>\<open>extract_company_profile\<close> on a parsed page; \<open>time_sleep\<close> tells whether
  \<^verbatim>\<open>time.sleep\<close> raises for a delay (it does for a negative one). \<open>fetch\<close> answers
  \<^verbatim>\<open>_get_page_content\<close> per URL, \<open>open_base_url\<close> the first \<^verbatim>\<open>driver.get\<close> of the list run,
  \<open>list_page\<close> each round of its browser loop, \<open>specific_page\<close> the browser block of
  \<^verbatim>\<open>scrape_specific_page\<close> (load, wait for rows, find them), \<open>profile_page\<close> the browser
  block of \<^verbatim>\<open>scrape_company_profile\<close>, and \<open>save_to_json\<close> tells per file name whether
  writing it raises.
\<close>

record env =
  parse_html :: "string \<Rightarrow> py_exn + html"
  urljoin :: "string \<Rightarrow> string \<Rightarrow> string"
  profile_of :: "html \<Rightarrow> dict"
  time_sleep :: "int \<Rightarrow> py_exn option"
  fetch :: "string \<Rightarrow> fetch_obs"
  open_base_url :: "py_exn option"
  list_page :: "int \<Rightarrow> page_obs"
  specific_page :: "string \<Rightarrow> py_exn + web_row list"
  profile_page :: "string \<Rightarrow> py_exn + string"
  save_to_json :: "string \<Rightarrow> py_exn option"

section \<open>Page Fetcher (base\_scraper.py, \_get\_page\_content)\<close>

text \<open>
  The first \<^verbatim>\<open>try\<close> block, entered with a browser: load the URL, sleep for the configured
  delay, wait for the body, read the page source. \<open>Inl ex\<close> when a step raises.
\<close>

definition browser_block :: "scraper \<Rightarrow> env \<Rightarrow> string \<Rightarrow> py_exn + string" where
  "browser_block self world url =
     (case driver_get (fetch world url) of
        Some ex \<Rightarrow> Inl ex
      | None \<Rightarrow>
          (case time_sleep world (delay_between_requests (config self)) of
             Some ex \<Rightarrow> Inl ex
           | None \<Rightarrow> browser_load (fetch world url)))"

text \<open>The second \<^verbatim>\<open>try\<close> block: the request, then the status check, then the body.\<close>

definition http_block :: "fetch_obs \<Rightarrow> py_exn + string" where
  "http_block obs =
     (case session_get obs of
        Inl ex \<Rightarrow> Inl ex
      | Inr response \<Rightarrow>
          (case raise_for_status response of
             Some ex \<Rightarrow> Inl ex
           | None \<Rightarrow> Inr (body_text response)))"

definition http_path :: "scraper \<Rightarrow> fetch_obs \<Rightarrow> string \<Rightarrow> string option \<times> event list" where
  "http_path self obs url =
     ((case http_block obs of Inr txt \<Rightarrow> Some txt | Inl ex \<Rightarrow> None),
      [HttpGet url (request_timeout (config self))])"

text \<open>
  \<open>None\<close> is the failure value. With a browser the page source is returned unless the
  first block raises; then, and without a browser, the HTTP path decides.
\<close>

definition get_page_content :: "scraper \<Rightarrow> env \<Rightarrow> string \<Rightarrow> string option \<times> event list" where
  "get_page_content self world url =
     (if browser_on self then
        (case browser_block self world url of
           Inr page_source \<Rightarrow> (Some page_source, [BrowserGet url])
         | Inl ex \<Rightarrow>
             (fst (http_path self (fetch world url) url),
              BrowserGet url # snd (http_path self (fetch world url) url)))
      else http_path self (fetch world url) url)"

definition is_http_get :: "event \<Rightarrow> bool" where
  "is_http_get e = (case e of HttpGet url t \<Rightarrow> True | _ \<Rightarrow> False)"

section \<open>Blocking Detector (browser\_utils.py, detect\_blocking)\<close>

record blocking_obs =
  page_source_read :: "py_exn + string"
  company_rows :: "py_exn + web_row list"

definition blocking_indicators :: "string list" where
  "blocking_indicators =
     [''blocked'', ''captcha'', ''cloudflare'', ''access denied'',
      ''please wait'', ''checking your browser'', ''ddos protection'']"

definition detect_blocking :: "blocking_obs \<Rightarrow> bool" where
  "detect_blocking obs =
     (case page_source_read obs of
        Inl ex \<Rightarrow> True
      | Inr page_source \<Rightarrow>
          if list_ex (\<lambda>indicator. py_in indicator (py_lower page_source)) blocking_indicators then True
          else if length page_source < 5000 then True
          else
            (case company_rows obs of
               Inl ex \<Rightarrow> True
             | Inr rows \<Rightarrow> if rows = [] then True else False))"

section \<open>Pagination Navigator (browser\_utils.py, saas\_scraper.py)\<close>

text \<open>
  The settle wait polls the number of rows until its timeout. The polls that fit into the
  timeout are the list; each is the count seen, or the exception of that poll, which the
  loop swallows. \<open>last_count\<close> starts at 0.
\<close>

fun wait_for_ajax_content_load :: "(py_exn + nat) list \<Rightarrow> nat \<Rightarrow> nat \<Rightarrow> bool" where
  "wait_for_ajax_content_load [] expected_count last_count = False"
| "wait_for_ajax_content_load (Inl ex # polls) expected_count last_count =
     wait_for_ajax_content_load polls expected_count last_count"
| "wait_for_ajax_content_load (Inr current_count # polls) expected_count last_count =
     (if last_count < current_count then
        (if expected_count \<le> current_count then True
         else wait_for_ajax_content_load polls expected_count current_count)
      else wait_for_ajax_content_load polls expected_count last_count)"

text \<open>
  The page state signature: the stripped name of each of the first five rows, a row whose
  name link cannot be read being skipped.
\<close>

definition first_names :: "web_row list \<Rightarrow> string list" where
  "first_names current_rows =
     concat (map (\<lambda>row. case name_link_text row of Inr t \<Rightarrow> [py_strip t] | Inl ex \<Rightarrow> [])
                 (take 5 current_rows))"

definition content_changed :: "string list \<Rightarrow> string list \<Rightarrow> bool" where
  "content_changed current_companies previous_companies =
     (case (current_companies, previous_companies) of
        (c # cs, p # ps) \<Rightarrow> c \<noteq> p
      | _ \<Rightarrow> False)"

text \<open>The body of the \<^verbatim>\<open>try\<close>: \<open>Inl ex\<close> when a step outside the inner handlers raises.\<close>

definition navigate_body :: "nav_obs \<Rightarrow> py_exn + bool" where
  "navigate_body obs =
     (case rows_before obs of
        Inl ex \<Rightarrow> Inl ex
      | Inr current_rows \<Rightarrow>
          (let previous_companies = first_names current_rows in
           case next_button obs of
             Some ex \<Rightarrow> Inl ex
           | None \<Rightarrow>
               (case scroll_into_view obs of
                  Some ex \<Rightarrow> Inl ex
                | None \<Rightarrow>
                    (let click_success =
                       (case js_click obs of
                          None \<Rightarrow> True
                        | Some ex \<Rightarrow> (case native_click obs of None \<Rightarrow> True | Some ex' \<Rightarrow> False))
                     in
                       if \<not> click_success then Inr False
                       else if wait_for_ajax_content_load (ajax_polls obs) 20 0 then
                         (case rows_after obs of
                            Inl ex \<Rightarrow> Inl ex
                          | Inr new_rows \<Rightarrow>
                              Inr (content_changed (first_names new_rows) previous_companies))
                       else Inr False))))"

definition navigate_to_next_page :: "nav_obs \<Rightarrow> bool" where
  "navigate_to_next_page obs = (case navigate_body obs of Inr ok \<Rightarrow> ok | Inl ex \<Rightarrow> False)"

text \<open>
  The first record name of a capture (\<^verbatim>\<open>previous_companies[0]\<close>, \<^verbatim>\<open>current_companies[0]\<close>):
  none when the rows could not be read or no row gave a name.
\<close>

definition first_record :: "py_exn + web_row list \<Rightarrow> string option" where
  "first_record capture =
     (case capture of
        Inl ex \<Rightarrow> None
      | Inr rows \<Rightarrow> (case first_names rows of [] \<Rightarrow> None | n # ns \<Rightarrow> Some n))"

section \<open>Scrape Orchestrator (saas\_scraper.py)\<close>

text \<open>The decimal text of an integer, as an f-string writes it.\<close>

function str_nat :: "nat \<Rightarrow> string" where
  "str_nat n =
     (if n < 10 then [''0123456789'' ! n]
      else str_nat (n div 10) @ [''0123456789'' ! (n mod 10)])"
  by pat_completeness auto
termination
  by (relation "measure (\<lambda>n. n)") auto

declare str_nat.simps [simp del]

text \<open>The number a decimal text denotes (the inverse of \<open>str_nat\<close>).\<close>

definition read_nat :: "string \<Rightarrow> nat" where
  "read_nat s = foldl (\<lambda>a c. 10 * a + digit_val c) 0 s"

definition str_int :: "int \<Rightarrow> string" where
  "str_int i = (if i < 0 then CHR ''-'' # str_nat (nat (- i)) else str_nat (nat i))"

text \<open>The address of a list page: the base URL, with \<^verbatim>\<open>?page=n\<close> from page 2 on.\<close>

definition page_url :: "scraper \<Rightarrow> int \<Rightarrow> string" where
  "page_url self page =
     (if 1 < page then base_url (config self) @ ''?page='' @ str_int page
      else base_url (config self))"

text \<open>
  The two row loops every scraping path uses. Over browser elements the markup of a row is
  read and parsed first, and a row whose read or parse raises is skipped by the handler
  around it; over parsed rows the element is extracted as it is. Both keep a record only
  if its name is set.
\<close>

definition companies_from_elements :: "env \<Rightarrow> web_row list \<Rightarrow> dict list" where
  "companies_from_elements world rows =
     concat (map (\<lambda>row.
        case outer_html row of
          Inl ex \<Rightarrow> []
        | Inr row_html \<Rightarrow>
            (case parse_html world row_html of
               Inl ex \<Rightarrow> []
             | Inr soup \<Rightarrow>
                 (let company_data = extract_company_data_from_card (urljoin world) soup
                  in if has_name company_data then [company_data] else []))) rows)"

definition companies_from_soup :: "env \<Rightarrow> html list \<Rightarrow> dict list" where
  "companies_from_soup world rows =
     concat (map (\<lambda>row.
        (let company_data = extract_company_data_from_card (urljoin world) row
         in if has_name company_data then [company_data] else [])) rows)"

definition soup_rows :: "html \<Rightarrow> html list" where
  "soup_rows soup = find_all soup ''tr'' (\<lambda>d. has_class d ''data-table_row__aX_dq'')"

text \<open>
  The records of fetched content: none when the content is \<open>None\<close> or empty; otherwise the
  content is parsed, which may raise, and its rows are extracted.
\<close>

definition companies_of_content :: "env \<Rightarrow> string option \<Rightarrow> py_exn + dict list" where
  "companies_of_content world content =
     (case content of
        None \<Rightarrow> Inr []
      | Some c \<Rightarrow>
          if c = [] then Inr []
          else
            (case parse_html world c of
               Inl ex \<Rightarrow> Inl ex
             | Inr soup \<Rightarrow> Inr (companies_from_soup world (soup_rows soup))))"

subsection \<open>\_scrape\_with\_requests\_fallback\<close>

text \<open>
  One round of the loop over the pages. Nothing in the function catches an exception, so
  \<open>Inl ex\<close> is the exception that leaves it: the parser's, or that of the sleep at the end
  of a round, which is reached only when the page had content and rows.
\<close>

definition fallback_page :: "scraper \<Rightarrow> env \<Rightarrow> int \<Rightarrow> (py_exn + dict list) \<times> event list" where
  "fallback_page self world page =
     (let url = page_url self page;
          got = get_page_content self world url
      in
        case fst got of
          None \<Rightarrow> (Inr [], snd got)
        | Some content \<Rightarrow>
            if content = [] then (Inr [], snd got)
            else
              (case parse_html world content of
                 Inl ex \<Rightarrow> (Inl ex, snd got)
               | Inr soup \<Rightarrow>
                   (let company_rows = soup_rows soup in
                    if company_rows = [] then (Inr [], snd got)
                    else
                      (case time_sleep world (delay_between_requests (config self)) of
                         Some ex \<Rightarrow> (Inl ex, snd got)
                       | None \<Rightarrow> (Inr (companies_from_soup world company_rows), snd got)))))"

fun fallback_pages :: "scraper \<Rightarrow> env \<Rightarrow> int list \<Rightarrow> (py_exn + dict list) \<times> event list" where
  "fallback_pages self world [] = (Inr [], [])"
| "fallback_pages self world (page # pages) =
     (let one = fallback_page self world page in
      case fst one of
        Inl ex \<Rightarrow> (Inl ex, snd one)
      | Inr page_companies \<Rightarrow>
          (let rest = fallback_pages self world pages in
           case fst rest of
             Inl ex \<Rightarrow> (Inl ex, snd one @ snd rest)
           | Inr later \<Rightarrow> (Inr (page_companies @ later), snd one @ snd rest)))"

definition scrape_with_requests_fallback ::
    "scraper \<Rightarrow> env \<Rightarrow> (py_exn + dict list) \<times> event list" where
  "scrape_with_requests_fallback self world =
     fallback_pages self world [1 .. pages_to_scrape (config self)]"

text \<open>The records a round of the fallback adds (none when it raises).\<close>

definition fallback_records :: "scraper \<Rightarrow> env \<Rightarrow> int \<Rightarrow> dict list" where
  "fallback_records self world page =
     (case fst (fallback_page self world page) of Inr page_companies \<Rightarrow> page_companies | Inl ex \<Rightarrow> [])"

subsection \<open>scrape\_companies\_list\<close>

text \<open>
  How the browser loop is left: \<open>Switched acc\<close> is
  \<^verbatim>\<open>return self._scrape_with_requests_fallback()\<close> with \<open>acc\<close> in \<^verbatim>\<open>all_companies\<close> at that
  moment; \<open>Ended acc\<close> is the end of the loop, its \<^verbatim>\<open>break\<close>, or an exception caught by
  the handler around it, each of which goes on after the \<^verbatim>\<open>try\<close> with \<open>acc\<close>. The sleep
  that ends a round stands inside that handler.
\<close>

datatype loop_result = Switched "dict list" | Ended "dict list"

fun browser_loop :: "scraper \<Rightarrow> env \<Rightarrow> int list \<Rightarrow> dict list \<Rightarrow> loop_result" where
  "browser_loop self world [] all_companies = Ended all_companies"
| "browser_loop self world (page # pages) all_companies =
     (let obs = list_page world page in
      case wait_rows obs of
        Some ex \<Rightarrow>
          if ex = TimeoutException then
            (case source_after_timeout obs of
               Inl ex' \<Rightarrow> Ended all_companies
             | Inr page_source \<Rightarrow>
                 if length page_source < 5000 then
                   (if 1 < page then Switched all_companies else Ended all_companies)
                 else browser_loop self world pages all_companies)
          else Ended all_companies
      | None \<Rightarrow>
          (case found_rows obs of
             Inl ex \<Rightarrow> Ended all_companies
           | Inr rows \<Rightarrow>
               (let extended = all_companies @ companies_from_elements world rows in
                if page < pages_to_scrape (config self) \<and> \<not> navigate_to_next_page (navigation obs)
                then Switched extended
                else
                  (case time_sleep world (delay_between_requests (config self)) of
                     Some ex \<Rightarrow> Ended extended
                   | None \<Rightarrow> browser_loop self world pages extended))))"

text \<open>
  What a round of the browser loop does with a page: it goes on to the next page (rows
  found, before the last page a successful navigation, and a sleep that returns; or a
  timeout on a page of 5000 characters or more), or it switches to the fallback (a
  timeout on a shorter page after the first; or rows found and a failed navigation).
\<close>

definition page_goes_on :: "scraper \<Rightarrow> env \<Rightarrow> int \<Rightarrow> bool" where
  "page_goes_on self world page =
     (let obs = list_page world page in
      (wait_rows obs = None \<and> \<not> isl (found_rows obs)
         \<and> \<not> (page < pages_to_scrape (config self) \<and> \<not> navigate_to_next_page (navigation obs))
         \<and> time_sleep world (delay_between_requests (config self)) = None)
      \<or> (wait_rows obs = Some TimeoutException
         \<and> (case source_after_timeout obs of Inl ex \<Rightarrow> False | Inr src \<Rightarrow> 5000 \<le> length src)))"

definition page_switches :: "scraper \<Rightarrow> env \<Rightarrow> int \<Rightarrow> bool" where
  "page_switches self world page =
     (let obs = list_page world page in
      (wait_rows obs = Some TimeoutException
         \<and> (case source_after_timeout obs of Inl ex \<Rightarrow> False | Inr src \<Rightarrow> length src < 5000)
         \<and> 1 < page)
      \<or> (wait_rows obs = None \<and> \<not> isl (found_rows obs)
         \<and> page < pages_to_scrape (config self) \<and> \<not> navigate_to_next_page (navigation obs)))"

text \<open>
  The code after the \<^verbatim>\<open>try\<close>: with no record so far the fallback runs, outside every
  handler, so that its exception leaves the function; otherwise the records are returned.
\<close>

definition after_browser ::
    "scraper \<Rightarrow> env \<Rightarrow> dict list \<Rightarrow> (py_exn + dict list) \<times> event list" where
  "after_browser self world all_companies =
     (if all_companies = [] then scrape_with_requests_fallback self world
      else (Inr all_companies, []))"

text \<open>
  The whole function. Both \<^verbatim>\<open>return self._scrape_with_requests_fallback()\<close> stand inside
  the \<^verbatim>\<open>try\<close>: when the fallback returns, its result is returned; when it raises, the
  handler swallows the exception and the code after the \<^verbatim>\<open>try\<close> goes on with the records
  gathered by the browser.
\<close>

definition scrape_companies_list ::
    "scraper \<Rightarrow> env \<Rightarrow> (py_exn + dict list) \<times> event list" where
  "scrape_companies_list self world =
     (if browser_on self then
        (let opened = [BrowserGet (base_url (config self))] in
         case open_base_url world of
           Some ex \<Rightarrow>
             (fst (after_browser self world []), opened @ snd (after_browser self world []))
         | None \<Rightarrow>
             (case browser_loop self world [1 .. pages_to_scrape (config self)] [] of
                Switched acc \<Rightarrow>
                  (let fallback = scrape_with_requests_fallback self world in
                   case fst fallback of
                     Inr companies \<Rightarrow> (Inr companies, opened @ snd fallback)
                   | Inl ex \<Rightarrow>
                       (fst (after_browser self world acc),
                        opened @ snd fallback @ snd (after_browser self world acc)))
              | Ended all_companies \<Rightarrow>
                  (fst (after_browser self world all_companies),
                   opened @ snd (after_browser self world all_companies))))
      else after_browser self world [])"

subsection \<open>scrape\_specific\_page and scrape\_page\_range\<close>

text \<open>The names of the files written.\<close>

definition page_file :: "int \<Rightarrow> string" where
  "page_file page_number = ''companies_page_'' @ str_int page_number @ ''.json''"

definition range_file :: "int \<Rightarrow> int \<Rightarrow> string" where
  "range_file start_page end_page =
     ''companies_pages_'' @ str_int start_page @ ''_to_'' @ str_int end_page @ ''.json''"

text \<open>
  \<open>Inl ex\<close> is the exception that leaves the function: the \<open>ValueError\<close> of the page check,
  or the one of \<^verbatim>\<open>save_to_json\<close>, which stands outside every handler. The exception of
  the parser is caught by the handler of the requests block and leaves the page without
  records.
\<close>

definition scrape_specific_page ::
    "scraper \<Rightarrow> env \<Rightarrow> int \<Rightarrow> (py_exn + dict list) \<times> event list" where
  "scrape_specific_page self world page_number =
     (if page_number < 1 then (Inl ValueError, [])
      else
        let url = page_url self page_number;
            by_browser =
              (if browser_on self then
                 (case specific_page world url of
                    Inl ex \<Rightarrow> []
                  | Inr rows \<Rightarrow> companies_from_elements world rows)
               else []);
            ev1 = (if browser_on self then [BrowserGet url] else []);
            got = get_page_content self world url;
            by_requests =
              (case companies_of_content world (fst got) of Inl ex \<Rightarrow> [] | Inr found \<Rightarrow> found);
            companies = (if by_browser = [] then by_requests else by_browser);
            ev2 = (if by_browser = [] then snd got else []);
            name = page_file page_number
        in
          if companies \<noteq> [] then
            (case save_to_json world name of
               Some ex \<Rightarrow> (Inl ex, ev1 @ ev2 @ [SaveJson name])
             | None \<Rightarrow> (Inr companies, ev1 @ ev2 @ [SaveJson name]))
          else (Inr companies, ev1 @ ev2))"

text \<open>
  The loop over the pages: a page whose scrape raises adds nothing and the loop goes on.
  The sleep between two pages stands inside the same handler, after the records of the
  page were added, so that its raising changes nothing.
\<close>

fun range_pages :: "scraper \<Rightarrow> env \<Rightarrow> int list \<Rightarrow> dict list \<times> event list" where
  "range_pages self world [] = ([], [])"
| "range_pages self world (page_number # pages) =
     (let one = scrape_specific_page self world page_number;
          rest = range_pages self world pages
      in case fst one of
           Inl ex \<Rightarrow> (fst rest, snd one @ snd rest)
         | Inr companies \<Rightarrow> (companies @ fst rest, snd one @ snd rest))"

definition scrape_page_range ::
    "scraper \<Rightarrow> env \<Rightarrow> int \<Rightarrow> int \<Rightarrow> (py_exn + dict list) \<times> event list" where
  "scrape_page_range self world start_page end_page =
     (if start_page < 1 then (Inl ValueError, [])
      else if end_page < start_page then (Inl ValueError, [])
      else
        let done = range_pages self world [start_page .. end_page];
            all_companies = fst done;
            name = range_file start_page end_page
        in
          if all_companies \<noteq> [] then
            (case save_to_json world name of
               Some ex \<Rightarrow> (Inl ex, snd done @ [SaveJson name])
             | None \<Rightarrow> (Inr all_companies, snd done @ [SaveJson name]))
          else (Inr all_companies, snd done))"

text \<open>
  The records \<^verbatim>\<open>scrape_specific_page\<close> returns for a page (none when it raises), and the
  address an event asks for.
\<close>

definition page_records :: "scraper \<Rightarrow> env \<Rightarrow> int \<Rightarrow> dict list" where
  "page_records self world page_number =
     (case fst (scrape_specific_page self world page_number) of
        Inr companies \<Rightarrow> companies
      | Inl ex \<Rightarrow> [])"

definition requested :: "event \<Rightarrow> string option" where
  "requested e =
     (case e of BrowserGet url \<Rightarrow> Some url | HttpGet url t \<Rightarrow> Some url | SaveJson name \<Rightarrow> None)"

subsection \<open>Profile enrichment\<close>

text \<open>
  One round of the loop of \<^verbatim>\<open>_process_companies_chunk\<close>: for a record with a link, the
  sleep, the fetch, the parse and the merge \<^verbatim>\<open>{**company, **profile_data}\<close>. The handler of
  the round keeps the record as it is when the sleep or the parser raises, and so does a
  link that is not a string, which makes the fetch fail.
\<close>

definition process_company :: "scraper \<Rightarrow> env \<Rightarrow> dict \<Rightarrow> dict \<times> event list" where
  "process_company self world company =
     (case dict_get company ''Company Hyperlink'' of
        None \<Rightarrow> (company, [])
      | Some v \<Rightarrow>
          if \<not> truthy v then (company, [])
          else
            (case v of
               PStr profile_url \<Rightarrow>
                 (case time_sleep world (delay_between_requests (config self)) of
                    Some ex \<Rightarrow> (company, [])
                  | None \<Rightarrow>
                      (let got = get_page_content self world profile_url in
                       case fst got of
                         None \<Rightarrow> (company, snd got)
                       | Some content \<Rightarrow>
                           if content = [] then (company, snd got)
                           else
                             (case parse_html world content of
                                Inl ex \<Rightarrow> (company, snd got)
                              | Inr soup \<Rightarrow> (dict_merge company (profile_of world soup), snd got))))
             | _ \<Rightarrow> (company, [])))"

definition process_companies_chunk :: "scraper \<Rightarrow> env \<Rightarrow> dict list \<Rightarrow> dict list \<times> event list" where
  "process_companies_chunk self world companies_chunk =
     (map (\<lambda>company. fst (process_company self world company)) companies_chunk,
      concat (map (\<lambda>company. snd (process_company self world company)) companies_chunk))"

text \<open>
  \<^verbatim>\<open>scrape_company_profile\<close>: the empty dictionary when the page cannot be had. The parse
  stands outside its handler, so the parser's exception leaves the function.
\<close>

definition scrape_company_profile :: "scraper \<Rightarrow> env \<Rightarrow> string \<Rightarrow> py_exn + dict" where
  "scrape_company_profile self world company_url =
     (let content =
        (if browser_on self then
           (case profile_page world company_url of Inl ex \<Rightarrow> None | Inr page_source \<Rightarrow> Some page_source)
         else
           (case fst (get_page_content self world company_url) of
              None \<Rightarrow> None
            | Some c \<Rightarrow> if c = [] then None else Some c))
      in
        case content of
          None \<Rightarrow> Inr []
        | Some c \<Rightarrow>
            (case parse_html world c of
               Inl ex \<Rightarrow> Inl ex
             | Inr soup \<Rightarrow> Inr (profile_of world soup)))"

text \<open>
  One round of the sequential loop of \<^verbatim>\<open>scrape_all_company_profiles\<close> (the branch with a
  browser): the record merged with the profile, or with \<^verbatim>\<open>{}\<close> when it has no link; the
  handler of the round keeps the record as it is when the profile scrape raises.
\<close>

definition enrich_with_browser :: "scraper \<Rightarrow> env \<Rightarrow> dict \<Rightarrow> dict" where
  "enrich_with_browser self world company =
     (case dict_get company ''Company Hyperlink'' of
        Some (PStr profile_url) \<Rightarrow>
          if profile_url \<noteq> [] then
            (case scrape_company_profile self world profile_url of
               Inl ex \<Rightarrow> company
             | Inr detailed_data \<Rightarrow> dict_merge company detailed_data)
          else dict_merge company []
      | _ \<Rightarrow> dict_merge company [])"

text \<open>The sequential loop over the list.\<close>

definition enrich_all_with_browser :: "scraper \<Rightarrow> env \<Rightarrow> dict list \<Rightarrow> dict list" where
  "enrich_all_with_browser self world companies_list =
     map (enrich_with_browser self world) companies_list"

text \<open>
  The branch without a browser cuts the list into chunks of the configured size
  (default 5) and hands each to \<^verbatim>\<open>_process_companies_chunk\<close> on a worker pool.
\<close>

definition enrichment_chunks :: "scraper \<Rightarrow> dict list \<Rightarrow> py_exn + dict list list" where
  "enrichment_chunks self companies_list =
     company_chunks companies_list (case chunk_size (config self) of None \<Rightarrow> 5 | Some c \<Rightarrow> c)"

section \<open>Command line (main.py, main)\<close>

text \<open>
  What \<open>main\<close> observes: whether constructing the scraper raises, and whether a run raises.
  Its effects are the lines printed and the runs started; every page fetch of the program
  happens inside a run.
\<close>

record main_obs =
  construct :: "py_exn option"
  run_single_page :: "int \<Rightarrow> py_exn option"
  run_page_range :: "int \<Rightarrow> int \<Rightarrow> py_exn option"

datatype run = RunSinglePage int | RunPageRange int int

datatype printed = Line string | ErrorLine py_exn

definition usage_text :: "printed list" where
  "usage_text =
     [Line ''\<newline>Usage:'',
      Line ''1. Scrape all pages (default, pages 1-5):'',
      Line ''   python main.py'',
      Line ''\<newline>2. Scrape a single page:'',
      Line ''   python main.py <page_number>'',
      Line ''   Example: python main.py 2'',
      Line ''\<newline>3. Scrape a range of pages:'',
      Line ''   python main.py <start_page> <end_page>'',
      Line ''   Example: python main.py 1 5'']"

text \<open>
  The result of the body of the outer \<^verbatim>\<open>try\<close>: the value returned (\<open>None\<close> when the body
  runs to its end), or the exception that reaches the outer handler; with it the lines
  printed and the runs started.
\<close>

type_synonym main_state = "printed list \<times> run list"

definition finish :: "printed list \<Rightarrow> run \<Rightarrow> py_exn option \<Rightarrow> (py_exn + int option) \<times> main_state" where
  "finish out r outcome =
     (case outcome of
        Some ex \<Rightarrow> (Inl ex, (out, [r]))
      | None \<Rightarrow> (Inr None, (out @ [Line ''\<newline>Check the 'output' directory for results.''], [r])))"

definition reject :: "string \<Rightarrow> (py_exn + int option) \<times> main_state" where
  "reject msg = (Inr (Some 1), (Line msg # usage_text, []))"

definition main_body :: "main_obs \<Rightarrow> string list \<Rightarrow> (py_exn + int option) \<times> main_state" where
  "main_body world argv =
     (case construct world of
        Some ex \<Rightarrow> (Inl ex, ([], []))
      | None \<Rightarrow>
          if length argv = 1 then
            finish [Line ''\<newline>No page numbers provided. Using default: pages 1-5'']
              (RunPageRange 1 5) (run_page_range world 1 5)
          else if length argv = 2 then
            (case py_int (argv ! 1) of
               Inl ex \<Rightarrow> reject ''\<newline>Error: Please provide a valid page number''
             | Inr page_number \<Rightarrow>
                 if page_number < 1 then reject ''\<newline>Error: Page number must be 1 or greater''
                 else
                   (case run_single_page world page_number of
                      Some ex \<Rightarrow>
                        if ex = ValueError
                        then (Inr (Some 1),
                              (Line ''\<newline>Error: Please provide a valid page number'' # usage_text,
                               [RunSinglePage page_number]))
                        else (Inl ex, ([], [RunSinglePage page_number]))
                    | None \<Rightarrow> finish [] (RunSinglePage page_number) None))
          else if length argv = 3 then
            (case py_int (argv ! 1) of
               Inl ex \<Rightarrow> reject ''\<newline>Error: Please provide valid page numbers''
             | Inr start_page \<Rightarrow>
                 (case py_int (argv ! 2) of
                    Inl ex \<Rightarrow> reject ''\<newline>Error: Please provide valid page numbers''
                  | Inr end_page \<Rightarrow>
                      if start_page < 1 then reject ''\<newline>Error: Start page must be 1 or greater''
                      else if end_page < start_page
                      then reject ''\<newline>Error: End page must be greater than or equal to start page''
                      else
                        (case run_page_range world start_page end_page of
                           Some ex \<Rightarrow>
                             if ex = ValueError
                             then (Inr (Some 1),
                                   (Line ''\<newline>Error: Please provide valid page numbers'' # usage_text,
                                    [RunPageRange start_page end_page]))
                             else (Inl ex, ([], [RunPageRange start_page end_page]))
                         | None \<Rightarrow> finish [] (RunPageRange start_page end_page) None)))
          else reject ''\<newline>Error: Too many arguments'')"

text \<open>
  \<open>main\<close> returns the exit status handed to \<^verbatim>\<open>sys.exit\<close>: the value the body returns, 0
  when it runs to its end, and 1 from the outer handler, which prints the exception and
  no usage text.
\<close>

definition main :: "main_obs \<Rightarrow> string list \<Rightarrow> int \<times> main_state" where
  "main world argv =
     (let r = main_body world argv in
      case fst r of
        Inr (Some status) \<Rightarrow> (status, snd r)
      | Inr None \<Rightarrow> (0, snd r)
      | Inl ex \<Rightarrow> (1, (fst (snd r) @ [ErrorLine ex], snd (snd r))))"

text \<open>
  The argument lists the command line turns down: a single page argument that is not a
  number or is below 1; a pair with an argument that is not a number, a start below 1 or
  an end below the start; more than two arguments. \<open>argv\<close> is \<^verbatim>\<open>sys.argv\<close>, the program
  name first.
\<close>

definition bad_arguments :: "string list \<Rightarrow> bool" where
  "bad_arguments argv =
     ((length argv = 2 \<and>
         (case py_int (argv ! 1) of Inl ex \<Rightarrow> True | Inr page_number \<Rightarrow> page_number < 1))
      \<or> (length argv = 3 \<and>
         (case py_int (argv ! 1) of
            Inl ex \<Rightarrow> True
          | Inr start_page \<Rightarrow>
              (case py_int (argv ! 2) of
                 Inl ex \<Rightarrow> True
               | Inr end_page \<Rightarrow> start_page < 1 \<or> end_page < start_page)))
      \<or> 3 < length argv)"

section \<open>Concrete observations used in the examples\<close>

definition blocked_short :: blocking_obs where
  "blocked_short = \<lparr>page_source_read = Inr ''<html></html>'', company_rows = Inr []\<rparr>"

definition some_row :: web_row where
  "some_row = \<lparr>outer_html = Inr ''<tr></tr>'', name_link_text = Inr ''Acme''\<rparr>"

definition blocked_cloudflare :: blocking_obs where
  "blocked_cloudflare =
     \<lparr>page_source_read = Inr (replicate 5000 (CHR ''a'') @ ''ClOuDfLaRe'' @ ''!''),
      company_rows = Inr [some_row]\<rparr>"

definition not_blocked :: blocking_obs where
  "not_blocked = \<lparr>page_source_read = Inr (replicate 5000 (CHR ''a'')), company_rows = Inr [some_row]\<rparr>"

definition row_named :: "string \<Rightarrow> web_row" where
  "row_named n = \<lparr>outer_html = Inr n, name_link_text = Inr n\<rparr>"

definition nav_world :: "string \<Rightarrow> nav_obs" where
  "nav_world after =
     \<lparr>rows_before = Inr [row_named ''Acme'', row_named ''Bolt''],
      next_button = None, scroll_into_view = None, js_click = Some BrowserError,
      native_click = None, ajax_polls = [Inr 3, Inl BrowserError, Inr 20],
      rows_after = Inr [row_named after, row_named ''Dune'']\<rparr>"

definition plain_config :: config where
  "plain_config =
     \<lparr>base_url = ''https://getlatka.com/saas-companies'', pages_to_scrape = 2,
      delay_between_requests = 2, request_timeout = 10, use_selenium = False,
      chunk_size = Some 5\<rparr>"

definition http_scraper :: scraper where
  "http_scraper = \<lparr>config = plain_config, driver = False\<rparr>"

definition browser_scraper :: scraper where
  "browser_scraper = \<lparr>config = plain_config\<lparr>use_selenium := True\<rparr>, driver = True\<rparr>"

definition refused_fetch :: fetch_obs where
  "refused_fetch =
     \<lparr>driver_get = None, browser_load = Inl TimeoutException, session_get = Inl RequestError\<rparr>"

definition forbidden_fetch :: fetch_obs where
  "forbidden_fetch =
     \<lparr>driver_get = None, browser_load = Inl TimeoutException,
      session_get = Inr \<lparr>status_code = 403, body_text = ''Forbidden''\<rparr>\<rparr>"

text \<open>
  A table row with \<open>k\<close> cells (for \<open>k \<ge> 2\<close>) whose second cell holds the name link with
  the text \<open>n\<close>.
\<close>

definition cell :: "html list \<Rightarrow> html" where
  "cell children = Element ''td'' [(''class'', ''data-table_cell__a_9gs'')] children"

definition name_cell :: "string \<Rightarrow> html" where
  "name_cell n =
     cell [Element ''a'' [(''class'', ''cells_link__PfQot''), (''href'', ''/company'')] [Text n]]"

definition table_row :: "nat \<Rightarrow> string \<Rightarrow> html" where
  "table_row k n =
     Element ''tr'' [(''class'', ''data-table_row__aX_dq'')]
       (cell [] # name_cell n # replicate (k - 2) (cell [Text ''-'']))"

definition company_named :: "string \<Rightarrow> dict" where
  "company_named n =
     [(''Company Name'', PStr n), (''Company Linkedin Url'', PNone),
      (''Company Hyperlink'', PStr ''https://getlatka.com/company''),
      (''Company Website URL'', PNone), (''Revenue'', PStr ''-''), (''Funding'', PStr ''-''),
      (''Growth'', PStr ''-''), (''Founder Name'', PNone), (''Location'', PNone),
      (''Industry'', PNone)]"

text \<open>
  A world in which markup \<open>m\<close> parses to a page with one full row named \<open>m\<close>; the browser
  shows the company \<open>Acme\<close> on every page and its navigation never changes the first
  name; only the first list page can be fetched over HTTP, with the body \<open>Zeta\<close>;
  writing the file of the range 1 to 2 and the file of page 3 fails; every profile page
  gives the employee count 7 and the revenue \<open>$2M\<close>; and a sleep raises for a negative
  delay only.
\<close>

definition zeta_fetch :: fetch_obs where
  "zeta_fetch =
     \<lparr>driver_get = None, browser_load = Inl TimeoutException,
      session_get = Inr \<lparr>status_code = 200, body_text = ''Zeta''\<rparr>\<rparr>"

definition acme_page :: page_obs where
  "acme_page =
     \<lparr>wait_rows = None, source_after_timeout = Inr [], found_rows = Inr [row_named ''Acme''],
      navigation = nav_world ''Acme''\<rparr>"

definition list_world :: env where
  "list_world =
     \<lparr>parse_html = (\<lambda>markup. Inr (Element ''[document]'' [] [table_row 15 markup])),
      urljoin = (\<lambda>base href. base @ href),
      profile_of = (\<lambda>page. [(''employee_count'', PInt 7), (''Revenue'', PStr ''$2M'')]),
      time_sleep = (\<lambda>delay. if delay < 0 then Some ValueError else None),
      fetch = (\<lambda>url. if url = ''https://getlatka.com/saas-companies'' then zeta_fetch else refused_fetch),
      open_base_url = None,
      list_page = (\<lambda>page. acme_page),
      specific_page = (\<lambda>url. Inr [row_named ''Acme'']),
      profile_page = (\<lambda>url. Inr ''Zeta''),
      save_to_json =
        (\<lambda>name. if name = ''companies_pages_1_to_2.json'' \<or> name = ''companies_page_3.json''
                then Some IOError else None)\<rparr>"

text \<open>Two command-line worlds: one where the scraper cannot be constructed, one where all works.\<close>

definition broken_setup :: main_obs where
  "broken_setup =
     \<lparr>construct = Some IOError, run_single_page = (\<lambda>n. None), run_page_range = (\<lambda>a b. None)\<rparr>"

definition working_setup :: main_obs where
  "working_setup =
     \<lparr>construct = None, run_single_page = (\<lambda>n. None), run_page_range = (\<lambda>a b. None)\<rparr>"

text \<open>
  Variants of the world of the list pages: one where every fetch observes the same
  answers, and one whose parser rejects the markup \<open>Zeta\<close>. A response with status 301 that
  the session hands back, and a list record with a profile link.
\<close>

definition world_of :: "fetch_obs \<Rightarrow> env" where
  "world_of obs = list_world\<lparr>fetch := (\<lambda>url. obs)\<rparr>"

definition rejecting_world :: env where
  "rejecting_world =
     list_world\<lparr>parse_html :=
       (\<lambda>markup. if markup = ''Zeta'' then Inl ParserError else parse_html list_world markup)\<rparr>"

definition moved_fetch :: fetch_obs where
  "moved_fetch =
     \<lparr>driver_get = None, browser_load = Inl TimeoutException,
      session_get = Inr \<lparr>status_code = 301, body_text = ''Moved''\<rparr>\<rparr>"

definition linked_company :: dict where
  "linked_company =
     [(''Company Name'', PStr ''Acme''),
      (''Company Hyperlink'', PStr ''https://getlatka.com/saas-companies''),
      (''Revenue'', PStr ''$1M'')]"

chapter \<open>Verified properties\<close>

section \<open>Properties of the chunk partition\<close>

lemma drop_split_chunk: "drop i xs = take c (drop i xs) @ drop (i + c) xs"
proof -
  have "drop (i + c) xs = drop c (drop i xs)" by (simp add: add.commute)
  then show ?thesis by (simp only: append_take_drop_id)
qed

lemma concat_chunks_from:
  "0 < c \<Longrightarrow> concat (map (\<lambda>i. slice xs i (i + c)) (range_from k (length xs) c)) = drop k xs"
proof (induction k "length xs" c rule: range_from.induct)
  case (1 i c)
  show ?case
  proof (cases "i < length xs")
    case True
    with 1 have "concat (map (\<lambda>i. slice xs i (i + c)) (range_from i (length xs) c))
        = take c (drop i xs) @ drop (i + c) xs"
      by (simp add: range_from.simps [of i] slice_def)
    then show ?thesis by (simp only: drop_split_chunk [symmetric])
  next
    case False
    then show ?thesis by (simp add: range_from.simps [of i])
  qed
qed

lemma length_range_from:
  "0 < c \<Longrightarrow> length (range_from k n c) = (n - k + (c - 1)) div c"
proof (induction k n c rule: range_from.induct)
  case (1 i n c)
  show ?case
  proof (cases "i < n")
    case True
    define m where "m = n - (i + c) + (c - 1)"
    from 1 True have step: "length (range_from i n c) = Suc (m div c)"
      by (simp add: range_from.simps [of i] m_def)
    have "n - i + (c - 1) = m + c \<or> (n - i < c \<and> m = c - 1)"
      using True \<open>0 < c\<close> unfolding m_def by arith
    then show ?thesis
    proof
      assume "n - i + (c - 1) = m + c"
      then have "(n - i + (c - 1)) div c = (m + c) div c" by simp
      also have "\<dots> = Suc (m div c)" using \<open>0 < c\<close> by simp
      finally show ?thesis using step by simp
    next
      assume s: "n - i < c \<and> m = c - 1"
      then have z: "m div c = 0" using \<open>0 < c\<close> by simp
      from s True have "c \<le> n - i + (c - 1)" "n - i + (c - 1) < 2 * c" by arith+
      then have "(n - i + (c - 1)) div c = 1"
        by (intro div_nat_eqI) simp_all
      with step z show ?thesis by simp
    qed
  next
    case False
    with \<open>0 < c\<close> have "(n - i + (c - 1)) div c = 0" by simp
    with False show ?thesis by (simp add: range_from.simps [of i])
  qed
qed

lemma ceiling_nat_div:
  assumes "0 < c"
  shows "int ((n + (c - 1)) div c) = \<lceil>real n / real c\<rceil>"
proof -
  define q where "q = (n + (c - 1)) div c"
  have m: "q * c + (n + (c - 1)) mod c = n + (c - 1)" by (simp add: q_def)
  have b: "(n + (c - 1)) mod c < c" using assms by simp
  from m b have lo: "n \<le> q * c" by arith
  from m assms have hi: "q * c < n + c" by arith
  have "\<lceil>real n / real c\<rceil> = int q"
  proof (rule ceiling_unique)
    from hi have "real (q * c) < real (n + c)" by (simp only: of_nat_less_iff)
    then have "real q * real c - real c < real n" by simp
    then have "(real q - 1) * real c < real n" by (simp add: algebra_simps)
    then show "real_of_int (int q) - 1 < real n / real c"
      using assms by (simp add: pos_less_divide_eq)
    from lo have "real n \<le> real (q * c)" by (simp only: of_nat_le_iff)
    then show "real n / real c \<le> real_of_int (int q)"
      using assms by (simp add: pos_divide_le_eq)
  qed
  then show ?thesis by (simp add: q_def)
qed

text \<open>
  Claim C5. For every record list of length \<open>L\<close> and every chunk size \<open>c > 0\<close>, the
  chunk list built in \<^verbatim>\<open>scrape_all_company_profiles\<close> exists (no exception), its chunks
  concatenated in index order give back the input list, so every record is covered exactly
  once, and the number of chunks is \<open>ceil(L / c)\<close>.
\<close>

theorem chunk_partition_covers:
  "0 < csize \<Longrightarrow>
     \<exists>chunks. company_chunks companies_list csize = Inr chunks
       \<and> concat chunks = companies_list
       \<and> int (length chunks) = \<lceil>real (length companies_list) / real_of_int csize\<rceil>"
proof -
  assume pos: "0 < csize"
  define c where "c = nat csize"
  define chunks where
    "chunks = map (\<lambda>i. slice companies_list i (i + c)) (range_from 0 (length companies_list) c)"
  from pos have c: "0 < c" and cs: "real_of_int csize = real c" by (simp_all add: c_def)
  from pos have "company_chunks companies_list csize = Inr chunks"
    by (simp add: company_chunks_def chunks_def c_def)
  moreover have "concat chunks = companies_list"
    using concat_chunks_from [OF c, of companies_list 0] by (simp add: chunks_def)
  moreover have "int (length chunks) = \<lceil>real (length companies_list) / real_of_int csize\<rceil>"
    using length_range_from [OF c, of 0 "length companies_list"] ceiling_nat_div [OF c, of "length companies_list"]
    by (simp add: chunks_def cs)
  ultimately show ?thesis by blast
qed

theorem chunk_partition_covers_witness:
  "(0::int) < 3 \<and>
   (\<exists>chunks. company_chunks [1, 2, 3, 4, 5, 6, 7 :: nat] 3 = Inr chunks
       \<and> concat chunks = [1, 2, 3, 4, 5, 6, 7] \<and> int (length chunks) = 3)"
  using chunk_partition_covers [of 3 "[1, 2, 3, 4, 5, 6, 7 :: nat]"] by simp

section \<open>Properties of the employee-count parser\<close>

lemmas employee_count_eval =
  convert_employee_count_def employee_count_body_def py_float_def py_int_def py_strip_def
  py_upper_def upper_char_def py_remove_char_def is_space_def num_strip_def is_num_space_def
  take_sign_def float_number_def
  float_exponent_def digitpart_def is_digit_def digit_val_def decimal_to_double_def
  round_double_def rne_div_def py_float_mul_def py_int_of_float_def bitlen.simps Let_def

text \<open>The examples of the specification: \<open>float("1.4") * 1000\<close> rounds to \<open>1400.0\<close>.\<close>

lemma employee_count_thousands: "convert_employee_count ''1.4K'' = Inr (Some 1400)"
  by (simp add: employee_count_eval)

lemma employee_count_millions: "convert_employee_count ''2M'' = Inr (Some 2000000)"
  by (simp add: employee_count_eval)

lemma employee_count_plain: "convert_employee_count ''500'' = Inr (Some 500)"
  by (simp add: employee_count_eval)

lemma employee_count_unparseable: "convert_employee_count ''n/a'' = Inr None"
  by (simp add: employee_count_eval)

text \<open>Only the two caught exception classes become \<open>None\<close>; the function never raises them.\<close>

lemma convert_employee_count_never_value_error:
  "convert_employee_count s \<noteq> Inl ValueError \<and> convert_employee_count s \<noteq> Inl TypeError"
  by (auto simp: convert_employee_count_def split: sum.splits)

text \<open>
  Claim C7 (the code departs from it). The input \<^verbatim>\<open>"infK"\<close> is no employee count, yet the
  function does not return \<open>None\<close> for it: \<^verbatim>\<open>float("INF")\<close> is an infinity, \<^verbatim>\<open>int\<close> of an
  infinity raises \<open>OverflowError\<close>, and the handler catches \<open>ValueError\<close> and \<open>TypeError\<close>
  only, so the exception reaches the caller.
\<close>

theorem convert_employee_count_overflow_escapes:
  "convert_employee_count ''infK'' = Inl OverflowError"
  by (simp add: employee_count_eval)

section \<open>Properties of the blocking detector\<close>

lemma py_startswith_iff: "py_startswith s p \<longleftrightarrow> (\<exists>post. s = p @ post)"
  by (induction s p rule: py_startswith.induct) auto

lemma py_in_iff: "py_in sub s \<longleftrightarrow> (\<exists>pre post. s = pre @ sub @ post)"
proof (induction s)
  case Nil
  then show ?case by auto
next
  case (Cons c cs)
  show ?case
  proof
    assume "py_in sub (c # cs)"
    then consider "py_startswith (c # cs) sub" | "py_in sub cs" by auto
    then show "\<exists>pre post. c # cs = pre @ sub @ post"
    proof cases
      case 1
      then obtain post where "c # cs = sub @ post" by (auto simp: py_startswith_iff)
      then have "c # cs = [] @ sub @ post" by simp
      then show ?thesis by blast
    next
      case 2
      with Cons obtain pre post where "cs = pre @ sub @ post" by auto
      then have "c # cs = (c # pre) @ sub @ post" by simp
      then show ?thesis by blast
    qed
  next
    assume "\<exists>pre post. c # cs = pre @ sub @ post"
    then obtain pre post where e: "c # cs = pre @ sub @ post" by blast
    show "py_in sub (c # cs)"
    proof (cases pre)
      case Nil
      with e have "py_startswith (c # cs) sub" by (auto simp: py_startswith_iff)
      then show ?thesis by simp
    next
      case (Cons a pre')
      with e have "cs = pre' @ sub @ post" by simp
      with Cons.IH have "py_in sub cs" by blast
      then show ?thesis by simp
    qed
  qed
qed

lemma py_in_set: "py_in sub s \<Longrightarrow> set sub \<subseteq> set s"
  by (auto simp: py_in_iff)

lemma py_lower_append: "py_lower (a @ b) = py_lower a @ py_lower b"
  by (simp add: py_lower_def)

text \<open>
  Claim C2. Content shorter than 5000 characters is classified as blocked; content that
  holds \<open>cloudflare\<close> in any letter case (a part \<open>word\<close> whose lower case is that text) is
  classified as blocked; content of 5000 characters or more, none of whose lower-cased
  text holds a blocking indicator, with at least one row element found, is not.
\<close>

theorem detect_blocking_rules:
  "(page_source_read obs = Inr src \<and> length src < 5000 \<longrightarrow> detect_blocking obs)
   \<and> (page_source_read obs = Inr (pre @ word @ post) \<and> py_lower word = ''cloudflare''
        \<longrightarrow> detect_blocking obs)
   \<and> (page_source_read obs = Inr src \<and> 5000 \<le> length src
        \<and> \<not> list_ex (\<lambda>indicator. py_in indicator (py_lower src)) blocking_indicators
        \<and> company_rows obs = Inr rows \<and> rows \<noteq> []
        \<longrightarrow> \<not> detect_blocking obs)"
proof (intro conjI impI)
  assume "page_source_read obs = Inr src \<and> length src < 5000"
  then show "detect_blocking obs" by (simp add: detect_blocking_def)
next
  assume a: "page_source_read obs = Inr (pre @ word @ post) \<and> py_lower word = ''cloudflare''"
  then have "py_lower (pre @ word @ post) = py_lower pre @ ''cloudflare'' @ py_lower post"
    by (simp add: py_lower_append)
  then have "py_in ''cloudflare'' (py_lower (pre @ word @ post))"
    unfolding py_in_iff by blast
  then have "list_ex (\<lambda>indicator. py_in indicator (py_lower (pre @ word @ post))) blocking_indicators"
    by (simp add: blocking_indicators_def)
  with a show "detect_blocking obs" by (simp add: detect_blocking_def)
next
  assume "page_source_read obs = Inr src \<and> 5000 \<le> length src
        \<and> \<not> list_ex (\<lambda>indicator. py_in indicator (py_lower src)) blocking_indicators
        \<and> company_rows obs = Inr rows \<and> rows \<noteq> []"
  then show "\<not> detect_blocking obs" by (simp add: detect_blocking_def)
qed

lemma lower_replicate_a: "py_lower (replicate n (CHR ''a'')) = replicate n (CHR ''a'')"
  by (simp add: py_lower_def lower_char_def)

lemma no_indicator_in_as:
  "\<not> list_ex (\<lambda>indicator. py_in indicator (py_lower (replicate 5000 (CHR ''a'')))) blocking_indicators"
proof -
  have "\<not> py_in ind (replicate 5000 (CHR ''a''))" if "\<exists>c \<in> set ind. c \<noteq> CHR ''a''" for ind
    using that py_in_set [of ind "replicate 5000 (CHR ''a'')"] by auto
  then show ?thesis
    by (simp add: lower_replicate_a blocking_indicators_def)
qed

theorem detect_blocking_rules_witness:
  "detect_blocking blocked_short \<and> detect_blocking blocked_cloudflare \<and> \<not> detect_blocking not_blocked"
proof -
  have 1: "page_source_read blocked_short = Inr ''<html></html>'' \<and> length ''<html></html>'' < 5000"
    by (simp add: blocked_short_def)
  have 2: "page_source_read blocked_cloudflare = Inr (replicate 5000 (CHR ''a'') @ ''ClOuDfLaRe'' @ ''!'')
      \<and> py_lower ''ClOuDfLaRe'' = ''cloudflare''"
    by (simp add: blocked_cloudflare_def py_lower_def lower_char_def)
  have 3: "page_source_read not_blocked = Inr (replicate 5000 (CHR ''a''))
      \<and> 5000 \<le> length (replicate 5000 (CHR ''a''))
      \<and> \<not> list_ex (\<lambda>indicator. py_in indicator (py_lower (replicate 5000 (CHR ''a'')))) blocking_indicators
      \<and> company_rows not_blocked = Inr [some_row] \<and> [some_row] \<noteq> []"
    using no_indicator_in_as by (simp add: not_blocked_def)
  from detect_blocking_rules [of blocked_short "''<html></html>''"] 1
  have a: "detect_blocking blocked_short" by blast
  from detect_blocking_rules [of blocked_cloudflare _ "replicate 5000 (CHR ''a'')" "''ClOuDfLaRe''" "''!''"] 2
  have b: "detect_blocking blocked_cloudflare" by blast
  from detect_blocking_rules [of not_blocked "replicate 5000 (CHR ''a'')" _ _ _ "[some_row]"] 3
  have c: "\<not> detect_blocking not_blocked" by blast
  from a b c show ?thesis by blast
qed

section \<open>Properties of the navigator\<close>

text \<open>The navigation succeeds exactly when every step did and the first name changed.\<close>

lemma navigate_to_next_page_iff:
  "navigate_to_next_page obs \<longleftrightarrow>
     (\<exists>before after.
        rows_before obs = Inr before \<and> next_button obs = None \<and> scroll_into_view obs = None
        \<and> (js_click obs = None \<or> native_click obs = None)
        \<and> wait_for_ajax_content_load (ajax_polls obs) 20 0
        \<and> rows_after obs = Inr after
        \<and> content_changed (first_names after) (first_names before))"
  by (auto simp: navigate_to_next_page_def navigate_body_def Let_def
           split: sum.splits option.splits)

lemma content_changed_iff:
  "content_changed (first_names after) (first_names before) \<longleftrightarrow>
     (\<exists>p c. first_record (Inr before) = Some p \<and> first_record (Inr after) = Some c \<and> c \<noteq> p)"
  by (auto simp: content_changed_def first_record_def split: list.splits)

text \<open>
  Claim C1. When the first record name captured before the navigation and the one
  captured after it (each stripped as \<^verbatim>\<open>str.strip()\<close> does) are the same, or both
  missing, \<^verbatim>\<open>_navigate_to_next_page\<close> returns \<open>False\<close>, whatever the settle wait
  reported; and it returns \<open>True\<close> only if the settle wait succeeded and the first record
  name after the navigation differs from the one before.
\<close>

theorem navigate_needs_new_first_record:
  "(first_record (rows_before obs) = first_record (rows_after obs) \<longrightarrow> \<not> navigate_to_next_page obs)
   \<and> (navigate_to_next_page obs \<longrightarrow>
        wait_for_ajax_content_load (ajax_polls obs) 20 0
        \<and> (\<exists>p c. first_record (rows_before obs) = Some p
                 \<and> first_record (rows_after obs) = Some c \<and> c \<noteq> p))"
  by (auto simp: navigate_to_next_page_iff content_changed_iff)

theorem navigate_needs_new_first_record_witness:
  "wait_for_ajax_content_load (ajax_polls (nav_world ''Acme'')) 20 0
   \<and> first_record (rows_before (nav_world ''Acme'')) = first_record (rows_after (nav_world ''Acme''))
   \<and> \<not> navigate_to_next_page (nav_world ''Acme'')
   \<and> first_record (rows_after (nav_world (CHR 0xA0 # ''Acme''))) = Some ''Acme''
   \<and> \<not> navigate_to_next_page (nav_world (CHR 0xA0 # ''Acme''))
   \<and> navigate_to_next_page (nav_world ''Cobalt'')
   \<and> first_record (rows_before (nav_world ''Cobalt'')) = Some ''Acme''
   \<and> first_record (rows_after (nav_world ''Cobalt'')) = Some ''Cobalt''"
proof -
  have same: "first_record (rows_before (nav_world ''Acme'')) = first_record (rows_after (nav_world ''Acme''))"
    by (simp add: nav_world_def first_record_def first_names_def row_named_def py_strip_def is_space_def)
  have settled: "wait_for_ajax_content_load (ajax_polls (nav_world after)) 20 0" for after
    by (simp add: nav_world_def)
  have moved: "navigate_to_next_page (nav_world ''Cobalt'')"
    by (simp add: navigate_to_next_page_def navigate_body_def nav_world_def content_changed_def
          first_names_def row_named_def py_strip_def is_space_def)
  from navigate_needs_new_first_record [of "nav_world ''Acme''"] same
  have stay: "\<not> navigate_to_next_page (nav_world ''Acme'')" by blast
  have padded: "first_record (rows_after (nav_world (CHR 0xA0 # ''Acme''))) = Some ''Acme''"
    "first_record (rows_before (nav_world (CHR 0xA0 # ''Acme''))) = Some ''Acme''"
    by (simp_all add: nav_world_def first_record_def first_names_def row_named_def py_strip_def is_space_def)
  from navigate_needs_new_first_record [of "nav_world (CHR 0xA0 # ''Acme'')"] padded
  have stay_padded: "\<not> navigate_to_next_page (nav_world (CHR 0xA0 # ''Acme''))" by simp
  from navigate_needs_new_first_record [of "nav_world ''Cobalt''"] moved
  have differ: "\<exists>p c. first_record (rows_before (nav_world ''Cobalt'')) = Some p
      \<and> first_record (rows_after (nav_world ''Cobalt'')) = Some c \<and> c \<noteq> p" by blast
  have names: "first_record (rows_before (nav_world ''Cobalt'')) = Some ''Acme''"
    "first_record (rows_after (nav_world ''Cobalt'')) = Some ''Cobalt''"
    by (simp_all add: nav_world_def first_record_def first_names_def row_named_def py_strip_def is_space_def)
  from same settled stay padded stay_padded moved names show ?thesis by blast
qed

section \<open>Properties of the row extractor\<close>

lemma empty_company_data_fields:
  "\<forall>k \<in> set company_keys. dict_get empty_company_data k = Some PNone"
  by (simp add: company_keys_def empty_company_data_def dict_get_def)

lemma empty_company_data_nameless: "\<not> has_name empty_company_data"
  by (simp add: has_name_def company_keys_def empty_company_data_def dict_get_def)

text \<open>
  Claim C10. A row element with fewer than 14 cells of the expected class gives the
  record as initialised: all ten fields \<open>None\<close>, the company name too, whatever links the
  markup holds. The name test of the scraping paths (both row loops) then drops it: the
  page's records are those of the page without that row.
\<close>

theorem short_row_is_dropped:
  assumes "length (row_cells card_element) < 14"
  shows "extract_company_data_from_card join card_element = empty_company_data
    \<and> (\<forall>k \<in> set company_keys. dict_get (extract_company_data_from_card join card_element) k = Some PNone)
    \<and> \<not> has_name (extract_company_data_from_card join card_element)
    \<and> companies_from_soup world (rows1 @ card_element # rows2) = companies_from_soup world (rows1 @ rows2)
    \<and> (outer_html row = Inr markup \<and> parse_html world markup = Inr card_element \<longrightarrow>
         companies_from_elements world (els1 @ row # els2) = companies_from_elements world (els1 @ els2))"
proof -
  have e: "extract_company_data_from_card j card_element = empty_company_data" for j
    using assms by (simp add: extract_company_data_from_card_def Let_def)
  show ?thesis
    using empty_company_data_fields empty_company_data_nameless
    by (simp add: e companies_from_soup_def companies_from_elements_def Let_def)
qed

text \<open>Evaluation of the example rows.\<close>

lemma replicate_numeral: "replicate (numeral k) x = x # replicate (pred_numeral k) x"
  by (simp add: numeral_eq_Suc)

lemma py_strip_dash: "py_strip ''-'' = ''-''"
  by (simp add: py_strip_def is_space_def)

lemma py_strip_names: "py_strip ''Acme'' = ''Acme''" "py_strip ''Zeta'' = ''Zeta''"
  by (simp_all add: py_strip_def is_space_def)

lemma row_cells_table_row_15:
  "row_cells (table_row 15 n) = cell [] # name_cell n # replicate 13 (cell [Text ''-''])"
  by (simp add: row_cells_def table_row_def find_all_def cell_def name_cell_def tag_of_def
        has_class_def attr_def is_space_def replicate_numeral)

lemma extract_table_row_15:
  assumes "py_strip n = n" and "n \<noteq> []"
  shows "extract_company_data_from_card (\<lambda>base href. base @ href) (table_row 15 n) = company_named n"
  using assms
  by (simp add: extract_company_data_from_card_def row_cells_table_row_15 replicate_numeral
        find_all_def find_first_def cell_def name_cell_def tag_of_def has_class_def attr_def is_space_def
        set_name_fields_def set_unlocked_text_def set_link_text_def get_text_strip_def py_strip_dash
        href_linkedin_def href_website_def empty_company_data_def company_keys_def company_named_def
        Let_def)

lemma parsed_row_cells:
  "row_cells (Element ''[document]'' [] [table_row 15 n]) = row_cells (table_row 15 n)"
  by (simp add: row_cells_def table_row_def find_all_def tag_of_def has_class_def attr_def is_space_def)

lemma row_cells_table_row_13:
  "row_cells (table_row 13 n) = cell [] # name_cell n # replicate 11 (cell [Text ''-''])"
  by (simp add: row_cells_def table_row_def find_all_def cell_def name_cell_def tag_of_def
        has_class_def attr_def is_space_def replicate_numeral)

lemma extract_depends_on_cells:
  "row_cells a = row_cells b \<Longrightarrow>
     extract_company_data_from_card join a = extract_company_data_from_card join b"
  by (simp add: extract_company_data_from_card_def)

lemma has_name_company_named: "n \<noteq> [] \<Longrightarrow> has_name (company_named n)"
  by (simp add: has_name_def company_named_def dict_get_def)

lemma urljoin_list_world: "urljoin list_world = (\<lambda>base href. base @ href)"
  by (simp add: list_world_def)

lemma parse_list_world: "parse_html list_world m = Inr (Element ''[document]'' [] [table_row 15 m])"
  by (simp add: list_world_def)

theorem short_row_is_dropped_witness:
  "length (row_cells (table_row 13 ''Acme'')) < 14
   \<and> find_first (row_cells (table_row 13 ''Acme'') ! 1) ''a'' (\<lambda>d. has_class d ''cells_link__PfQot'')
       \<noteq> None
   \<and> extract_company_data_from_card (urljoin list_world) (table_row 13 ''Acme'') = empty_company_data
   \<and> companies_from_soup list_world [table_row 13 ''Acme'', table_row 15 ''Zeta'']
       = [company_named ''Zeta'']"
proof -
  have short: "length (row_cells (table_row 13 ''Acme'')) < 14"
    by (simp add: row_cells_table_row_13)
  have link: "find_first (row_cells (table_row 13 ''Acme'') ! 1) ''a'' (\<lambda>d. has_class d ''cells_link__PfQot'')
       \<noteq> None"
    by (simp add: row_cells_table_row_13 find_first_def find_all_def name_cell_def cell_def
          tag_of_def has_class_def attr_def is_space_def)
  have zeta: "companies_from_soup list_world [table_row 15 ''Zeta''] = [company_named ''Zeta'']"
    by (simp add: companies_from_soup_def urljoin_list_world extract_table_row_15 py_strip_names
          has_name_company_named)
  from short_row_is_dropped [OF short, of "urljoin list_world" list_world "[]" "[table_row 15 ''Zeta'']"]
  have "extract_company_data_from_card (urljoin list_world) (table_row 13 ''Acme'') = empty_company_data"
    and "companies_from_soup list_world [table_row 13 ''Acme'', table_row 15 ''Zeta'']
           = companies_from_soup list_world [table_row 15 ''Zeta'']"
    by simp_all
  with short link zeta show ?thesis by simp
qed

section \<open>Properties of the page fetcher\<close>

text \<open>The second \<^verbatim>\<open>try\<close> block by cases of the request and of the status.\<close>

lemma http_block_cases:
  "http_block obs =
     (case session_get obs of
        Inl ex \<Rightarrow> Inl ex
      | Inr r \<Rightarrow> if 400 \<le> status_code r \<and> status_code r < 600 then Inl HTTPError else Inr (body_text r))"
  by (simp add: http_block_def raise_for_status_def split: sum.splits)

text \<open>
  Claim C3, as the code has it. When the browser gives no content (it is off, or its
  block raises), \<^verbatim>\<open>_get_page_content\<close> issues exactly one HTTP GET, with the configured
  timeout and no second request. If the request raises, or the status is from 400 to 599
  (the statuses for which \<^verbatim>\<open>raise_for_status\<close> raises), the result is the failure value
  \<open>None\<close>; for every other status, 2xx or not, the result is the body of the response. The
  function has no exceptional result.
\<close>

theorem http_failure_is_terminal:
  assumes "\<not> browser_on self \<or> isl (browser_block self world url)"
  shows "filter is_http_get (snd (get_page_content self world url))
           = [HttpGet url (request_timeout (config self))]
    \<and> (isl (session_get (fetch world url)) \<longrightarrow> fst (get_page_content self world url) = None)
    \<and> (\<forall>r. session_get (fetch world url) = Inr r \<and> 400 \<le> status_code r \<and> status_code r < 600
         \<longrightarrow> fst (get_page_content self world url) = None)
    \<and> (\<forall>r. session_get (fetch world url) = Inr r \<and> \<not> (400 \<le> status_code r \<and> status_code r < 600)
         \<longrightarrow> fst (get_page_content self world url) = Some (body_text r))"
proof -
  from assms have path: "fst (get_page_content self world url) = fst (http_path self (fetch world url) url)"
    and evs: "filter is_http_get (snd (get_page_content self world url))
                = filter is_http_get (snd (http_path self (fetch world url) url))"
    by (auto simp: get_page_content_def is_http_get_def split: sum.splits)
  have one: "filter is_http_get (snd (http_path self (fetch world url) url))
      = [HttpGet url (request_timeout (config self))]"
    by (simp add: http_path_def is_http_get_def)
  have none: "fst (http_path self (fetch world url) url) = None" if "isl (session_get (fetch world url))"
    using that by (auto simp: http_path_def http_block_cases split: sum.splits)
  have refused: "fst (http_path self (fetch world url) url) = None"
    if "session_get (fetch world url) = Inr r \<and> 400 \<le> status_code r \<and> status_code r < 600" for r
    using that by (simp add: http_path_def http_block_cases)
  have accepted: "fst (http_path self (fetch world url) url) = Some (body_text r)"
    if "session_get (fetch world url) = Inr r \<and> \<not> (400 \<le> status_code r \<and> status_code r < 600)" for r
    using that by (auto simp: http_path_def http_block_cases)
  show ?thesis
  proof (intro conjI allI impI)
    show "filter is_http_get (snd (get_page_content self world url))
           = [HttpGet url (request_timeout (config self))]"
      using evs one by simp
  next
    assume "isl (session_get (fetch world url))"
    then show "fst (get_page_content self world url) = None" using path none by simp
  next
    fix r assume "session_get (fetch world url) = Inr r \<and> 400 \<le> status_code r \<and> status_code r < 600"
    then show "fst (get_page_content self world url) = None" using path refused by simp
  next
    fix r assume "session_get (fetch world url) = Inr r \<and> \<not> (400 \<le> status_code r \<and> status_code r < 600)"
    then show "fst (get_page_content self world url) = Some (body_text r)"
      using path accepted [of r] by simp
  qed
qed

text \<open>The two example scrapers and the worlds with one fixed fetch observation.\<close>

lemma scraper_facts:
  "\<not> browser_on http_scraper" "browser_on browser_scraper"
  "request_timeout (config http_scraper) = 10" "request_timeout (config browser_scraper) = 10"
  "delay_between_requests (config http_scraper) = 2" "delay_between_requests (config browser_scraper) = 2"
  "pages_to_scrape (config http_scraper) = 2" "pages_to_scrape (config browser_scraper) = 2"
  "base_url (config http_scraper) = ''https://getlatka.com/saas-companies''"
  "base_url (config browser_scraper) = ''https://getlatka.com/saas-companies''"
  by (simp_all add: browser_on_def http_scraper_def browser_scraper_def plain_config_def)

lemma world_of_facts:
  "fetch (world_of obs) url = obs" "time_sleep (world_of obs) 2 = None"
  by (simp_all add: world_of_def list_world_def)

text \<open>
  The status check does not raise on every status outside 200 to 299: without a browser, a
  response with status 301 that the session hands back is not a failure, its body is
  returned as the page content.
\<close>

theorem redirect_status_is_content:
  "\<not> browser_on http_scraper
   \<and> session_get (fetch (world_of moved_fetch) ''https://getlatka.com/saas-companies'')
       = Inr \<lparr>status_code = 301, body_text = ''Moved''\<rparr>
   \<and> \<not> (200 \<le> (301::nat) \<and> (301::nat) < 300)
   \<and> get_page_content http_scraper (world_of moved_fetch) ''https://getlatka.com/saas-companies''
       = (Some ''Moved'', [HttpGet ''https://getlatka.com/saas-companies'' 10])"
  by (simp add: scraper_facts world_of_facts moved_fetch_def get_page_content_def http_path_def
        http_block_cases)

theorem http_failure_is_terminal_witness:
  "get_page_content http_scraper (world_of refused_fetch) ''https://getlatka.com/saas-companies''
     = (None, [HttpGet ''https://getlatka.com/saas-companies'' 10])
   \<and> isl (browser_block browser_scraper (world_of forbidden_fetch) ''https://getlatka.com/saas-companies'')
   \<and> fst (get_page_content browser_scraper (world_of forbidden_fetch) ''https://getlatka.com/saas-companies'')
       = None
   \<and> filter is_http_get
         (snd (get_page_content browser_scraper (world_of forbidden_fetch) ''https://getlatka.com/saas-companies''))
       = [HttpGet ''https://getlatka.com/saas-companies'' 10]
   \<and> fst (get_page_content browser_scraper (world_of zeta_fetch) ''https://getlatka.com/saas-companies'')
       = Some ''Zeta''"
proof -
  let ?u = "''https://getlatka.com/saas-companies''"
  have a: "\<not> browser_on http_scraper \<or> isl (browser_block http_scraper (world_of refused_fetch) ?u)"
    by (simp add: scraper_facts)
  have blk: "isl (browser_block browser_scraper (world_of forbidden_fetch) ?u)"
    "isl (browser_block browser_scraper (world_of zeta_fetch) ?u)"
    by (simp_all add: browser_block_def scraper_facts world_of_facts forbidden_fetch_def zeta_fetch_def)
  then have b: "\<not> browser_on browser_scraper \<or> isl (browser_block browser_scraper (world_of forbidden_fetch) ?u)"
    and c: "\<not> browser_on browser_scraper \<or> isl (browser_block browser_scraper (world_of zeta_fetch) ?u)"
    by simp_all
  have ra: "isl (session_get (fetch (world_of refused_fetch) ?u))"
    by (simp add: world_of_facts refused_fetch_def)
  have rb: "session_get (fetch (world_of forbidden_fetch) ?u) = Inr \<lparr>status_code = 403, body_text = ''Forbidden''\<rparr>"
    by (simp add: world_of_facts forbidden_fetch_def)
  have rc: "session_get (fetch (world_of zeta_fetch) ?u) = Inr \<lparr>status_code = 200, body_text = ''Zeta''\<rparr>"
    by (simp add: world_of_facts zeta_fetch_def)
  from http_failure_is_terminal [OF a] ra
  have 1: "get_page_content http_scraper (world_of refused_fetch) ?u = (None, [HttpGet ?u 10])"
    by (simp add: prod_eq_iff scraper_facts get_page_content_def http_path_def)
  from http_failure_is_terminal [OF b] rb
  have 2: "fst (get_page_content browser_scraper (world_of forbidden_fetch) ?u) = None"
    "filter is_http_get (snd (get_page_content browser_scraper (world_of forbidden_fetch) ?u)) = [HttpGet ?u 10]"
    by (simp_all add: scraper_facts)
  from http_failure_is_terminal [OF c] rc
  have 3: "fst (get_page_content browser_scraper (world_of zeta_fetch) ?u) = Some ''Zeta''"
    by simp
  from 1 blk 2 3 show ?thesis by simp
qed

section \<open>Properties of the list scrape and its fallback\<close>

text \<open>
  When the fallback returns, its records are those of its rounds and it has fetched every
  page of the range; in any case its first fetch is that of the first page.
\<close>

lemma fallback_page_events:
  "snd (fallback_page self world p) = snd (get_page_content self world (page_url self p))"
  by (simp add: fallback_page_def Let_def split: option.splits sum.splits)

lemma fallback_pages_returns:
  "fst (fallback_pages self world pages) = Inr companies \<Longrightarrow>
     companies = concat (map (fallback_records self world) pages)
     \<and> snd (fallback_pages self world pages)
         = concat (map (\<lambda>p. snd (get_page_content self world (page_url self p))) pages)"
proof (induction pages arbitrary: companies)
  case Nil
  then show ?case by simp
next
  case (Cons page pages)
  from Cons.prems obtain first later where
    one: "fst (fallback_page self world page) = Inr first"
    and rest: "fst (fallback_pages self world pages) = Inr later"
    and all: "companies = first @ later"
    by (auto simp: Let_def split: sum.splits)
  from Cons.IH [OF rest] one rest all show ?case
    by (simp add: Let_def fallback_records_def fallback_page_events)
qed

lemma fallback_pages_first:
  "take (length (snd (get_page_content self world (page_url self p))))
        (snd (fallback_pages self world (p # pages)))
     = snd (get_page_content self world (page_url self p))"
  by (simp add: Let_def fallback_page_events split: sum.splits)

text \<open>Every fetch asks for the address it was given.\<close>

lemma get_page_content_requests:
  "snd (get_page_content self world url) \<noteq> []
   \<and> (\<forall>e \<in> set (snd (get_page_content self world url)). requested e = Some url)"
  by (auto simp: get_page_content_def http_path_def requested_def split: sum.splits)

text \<open>
  The browser loop switches to the fallback only on short content at a page after the
  first, or on a failed navigation; and it does so at the first page that asks for it.
\<close>

lemma browser_loop_switched:
  "browser_loop self world pages all_companies = Switched acc \<Longrightarrow>
     \<exists>p \<in> set pages.
       (wait_rows (list_page world p) = Some TimeoutException
        \<and> (\<exists>src. source_after_timeout (list_page world p) = Inr src \<and> length src < 5000)
        \<and> 1 < p)
       \<or> (wait_rows (list_page world p) = None
           \<and> p < pages_to_scrape (config self)
           \<and> \<not> navigate_to_next_page (navigation (list_page world p)))"
proof (induction pages arbitrary: all_companies)
  case Nil
  then show ?case by simp
next
  case (Cons page pages)
  show ?case
  proof (cases "\<exists>all'. browser_loop self world pages all' = Switched acc")
    case True
    then obtain all' where "browser_loop self world pages all' = Switched acc" by blast
    from Cons.IH [OF this] show ?thesis by auto
  next
    case False
    with Cons.prems show ?thesis
      by (auto simp: Let_def split: option.splits sum.splits if_splits)
  qed
qed

lemma browser_loop_goes_on:
  assumes "\<forall>q \<in> set before. page_goes_on self world q" and "page_switches self world p"
  shows "\<exists>acc. browser_loop self world (before @ p # after) all_companies = Switched acc"
  using assms(1)
proof (induction before arbitrary: all_companies)
  case Nil
  from assms(2) show ?case
    by (auto simp: page_switches_def Let_def split: sum.splits option.splits)
next
  case (Cons q before)
  then have q: "page_goes_on self world q" and rest: "\<forall>q \<in> set before. page_goes_on self world q"
    by simp_all
  from q Cons.IH [OF rest] show ?case
    by (auto simp: page_goes_on_def Let_def split: sum.splits option.splits)
qed

lemma browser_loop_switched_at:
  assumes "1 \<le> p" and "p \<le> pages_to_scrape (config self)"
    and "\<forall>q \<in> {1 ..< p}. page_goes_on self world q" and "page_switches self world p"
  shows "\<exists>acc. browser_loop self world [1 .. pages_to_scrape (config self)] [] = Switched acc"
proof -
  from assms(1,2) have "[1 .. pages_to_scrape (config self)]
      = [1 .. p - 1] @ p # [p + 1 .. pages_to_scrape (config self)]"
    by (rule upto_split3)
  moreover from assms(3) have "\<forall>q \<in> set [1 .. p - 1]. page_goes_on self world q" by auto
  ultimately show ?thesis using browser_loop_goes_on [OF _ assms(4)] by simp
qed

text \<open>
  Claim C9, as the code has it. When the browser loop of \<^verbatim>\<open>scrape_companies_list\<close>
  switches to the requests fallback with the records \<open>acc\<close> gathered so far, the fallback
  starts again at page 1. If the fallback returns, \<open>acc\<close> is dropped: the function returns
  the fallback's result, which is made of the records of its rounds over every page of
  the range, with one fetch per page. If the fallback raises (its parser or its sleep
  stand outside every handler), the handler around the browser loop swallows the
  exception: with \<open>acc\<close> not empty the function returns \<open>acc\<close>, the browser's records; with
  \<open>acc\<close> empty the fallback runs once more after the handler and its exception leaves the
  function.
\<close>

theorem fallback_replaces_browser_records:
  assumes "browser_on self" and "open_base_url world = None"
    and "browser_loop self world [1 .. pages_to_scrape (config self)] [] = Switched acc"
  shows "(\<forall>companies. fst (scrape_with_requests_fallback self world) = Inr companies \<longrightarrow>
            scrape_companies_list self world
              = (Inr companies,
                 BrowserGet (base_url (config self)) # snd (scrape_with_requests_fallback self world))
            \<and> companies
                = concat (map (fallback_records self world) [1 .. pages_to_scrape (config self)])
            \<and> snd (scrape_with_requests_fallback self world)
                = concat (map (\<lambda>p. snd (get_page_content self world (page_url self p)))
                    [1 .. pages_to_scrape (config self)]))
    \<and> (isl (fst (scrape_with_requests_fallback self world)) \<and> acc \<noteq> [] \<longrightarrow>
          fst (scrape_companies_list self world) = Inr acc)
    \<and> (isl (fst (scrape_with_requests_fallback self world)) \<and> acc = [] \<longrightarrow>
          fst (scrape_companies_list self world) = fst (scrape_with_requests_fallback self world))
    \<and> (1 \<le> pages_to_scrape (config self) \<longrightarrow>
          take (length (snd (get_page_content self world (page_url self 1))))
               (snd (scrape_with_requests_fallback self world))
            = snd (get_page_content self world (page_url self 1)))"
proof (intro conjI allI impI)
  fix companies
  assume r: "fst (scrape_with_requests_fallback self world) = Inr companies"
  with assms show "scrape_companies_list self world
      = (Inr companies,
         BrowserGet (base_url (config self)) # snd (scrape_with_requests_fallback self world))"
    by (simp add: scrape_companies_list_def Let_def)
  from r fallback_pages_returns [of self world "[1 .. pages_to_scrape (config self)]" companies]
  show "companies = concat (map (fallback_records self world) [1 .. pages_to_scrape (config self)])"
    and "snd (scrape_with_requests_fallback self world)
          = concat (map (\<lambda>p. snd (get_page_content self world (page_url self p)))
              [1 .. pages_to_scrape (config self)])"
    by (simp_all add: scrape_with_requests_fallback_def)
next
  assume "isl (fst (scrape_with_requests_fallback self world)) \<and> acc \<noteq> []"
  with assms show "fst (scrape_companies_list self world) = Inr acc"
    by (auto simp: scrape_companies_list_def Let_def after_browser_def split: sum.splits)
next
  assume "isl (fst (scrape_with_requests_fallback self world)) \<and> acc = []"
  with assms show "fst (scrape_companies_list self world) = fst (scrape_with_requests_fallback self world)"
    by (auto simp: scrape_companies_list_def Let_def after_browser_def split: sum.splits)
next
  assume "1 \<le> pages_to_scrape (config self)"
  then have "[1 .. pages_to_scrape (config self)] = 1 # [2 .. pages_to_scrape (config self)]"
    by (simp add: upto.simps)
  then show "take (length (snd (get_page_content self world (page_url self 1))))
               (snd (scrape_with_requests_fallback self world))
            = snd (get_page_content self world (page_url self 1))"
    using fallback_pages_first [of self world 1 "[2 .. pages_to_scrape (config self)]"]
    by (simp add: scrape_with_requests_fallback_def)
qed


text \<open>Evaluation of the example worlds.\<close>

lemma companies_of_named_row:
  assumes "parse_html world n = Inr (Element ''[document]'' [] [table_row 15 n])"
    and "urljoin world = (\<lambda>base href. base @ href)"
    and "py_strip n = n" and "n \<noteq> []"
  shows "companies_from_elements world [row_named n] = [company_named n]"
proof -
  have "extract_company_data_from_card (urljoin world) (Element ''[document]'' [] [table_row 15 n])
      = company_named n"
    using extract_depends_on_cells [OF parsed_row_cells, of "\<lambda>base href. base @ href" n]
      extract_table_row_15 [OF assms(3,4)] assms(2)
    by simp
  with assms show ?thesis
    by (simp add: companies_from_elements_def row_named_def has_name_company_named)
qed

lemma soup_rows_parsed: "soup_rows (Element ''[document]'' [] [table_row 15 n]) = [table_row 15 n]"
  by (simp add: soup_rows_def find_all_def table_row_def cell_def name_cell_def
        tag_of_def has_class_def attr_def is_space_def replicate_numeral)

lemma companies_of_named_content:
  assumes "py_strip n = n" and "n \<noteq> []"
  shows "companies_of_content list_world (Some n) = Inr [company_named n]"
  using assms
  by (simp add: companies_of_content_def parse_list_world soup_rows_parsed companies_from_soup_def
        urljoin_list_world extract_table_row_15 has_name_company_named)

lemma companies_of_none: "companies_of_content world None = Inr []"
  by (simp add: companies_of_content_def)

lemma str_int_small: "str_int 1 = ''1''" "str_int 2 = ''2''" "str_int 3 = ''3''" "str_int 4 = ''4''"
  by (simp_all add: str_int_def str_nat.simps)

lemma upto_small: "[1 .. 1] = [1::int]" "[1 .. 2] = [1, 2::int]" "[2 .. 4] = [2, 3, 4::int]"
  by (simp_all add: upto.simps)

lemma nav_world_acme_fails: "\<not> navigate_to_next_page (nav_world ''Acme'')"
  by (simp add: navigate_to_next_page_def navigate_body_def nav_world_def content_changed_def
        first_names_def row_named_def)

lemma page_urls:
  "page_url browser_scraper 1 = ''https://getlatka.com/saas-companies''"
  "page_url browser_scraper 2 = ''https://getlatka.com/saas-companies?page=2''"
  "page_url http_scraper 1 = ''https://getlatka.com/saas-companies''"
  "page_url http_scraper 2 = ''https://getlatka.com/saas-companies?page=2''"
  by (simp_all add: page_url_def scraper_facts str_int_small)

lemma list_world_facts:
  "open_base_url list_world = None" "list_page list_world p = acme_page"
  "time_sleep list_world 2 = None"
  "fetch list_world ''https://getlatka.com/saas-companies'' = zeta_fetch"
  "fetch list_world ''https://getlatka.com/saas-companies?page=2'' = refused_fetch"
  by (simp_all add: list_world_def)

lemma rejecting_world_facts:
  "open_base_url rejecting_world = None" "list_page rejecting_world p = acme_page"
  "time_sleep rejecting_world 2 = None"
  "fetch rejecting_world ''https://getlatka.com/saas-companies'' = zeta_fetch"
  "fetch rejecting_world ''https://getlatka.com/saas-companies?page=2'' = refused_fetch"
  "urljoin rejecting_world = (\<lambda>base href. base @ href)"
  "parse_html rejecting_world ''Zeta'' = Inl ParserError"
  "parse_html rejecting_world ''Acme'' = Inr (Element ''[document]'' [] [table_row 15 ''Acme''])"
  by (simp_all add: rejecting_world_def list_world_def)

lemma browser_fetch_zeta:
  assumes "fetch world u = zeta_fetch" and "time_sleep world 2 = None"
  shows "get_page_content browser_scraper world u = (Some ''Zeta'', [BrowserGet u, HttpGet u 10])"
  using assms
  by (simp add: get_page_content_def browser_block_def http_path_def http_block_cases scraper_facts
        zeta_fetch_def)

lemma browser_fetch_refused:
  assumes "fetch world u = refused_fetch" and "time_sleep world 2 = None"
  shows "get_page_content browser_scraper world u = (None, [BrowserGet u, HttpGet u 10])"
  using assms
  by (simp add: get_page_content_def browser_block_def http_path_def http_block_cases scraper_facts
        refused_fetch_def)

lemma browser_loop_acme:
  assumes "list_page world 1 = acme_page"
    and "parse_html world ''Acme'' = Inr (Element ''[document]'' [] [table_row 15 ''Acme''])"
    and "urljoin world = (\<lambda>base href. base @ href)"
  shows "browser_loop browser_scraper world [1 .. pages_to_scrape (config browser_scraper)] []
       = Switched [company_named ''Acme'']"
  using assms
  by (simp add: scraper_facts upto_small acme_page_def companies_of_named_row
        py_strip_names nav_world_acme_fails)

lemma fallback_page_list_world:
  "fallback_page browser_scraper list_world 1
     = (Inr [company_named ''Zeta''],
        [BrowserGet ''https://getlatka.com/saas-companies'',
         HttpGet ''https://getlatka.com/saas-companies'' 10])"
  "fallback_page browser_scraper list_world 2
     = (Inr [],
        [BrowserGet ''https://getlatka.com/saas-companies?page=2'',
         HttpGet ''https://getlatka.com/saas-companies?page=2'' 10])"
  by (simp_all add: fallback_page_def page_urls list_world_facts browser_fetch_zeta
        browser_fetch_refused parse_list_world soup_rows_parsed scraper_facts companies_from_soup_def
        urljoin_list_world extract_table_row_15 py_strip_names has_name_company_named)

lemma fallback_list_world:
  "scrape_with_requests_fallback browser_scraper list_world
     = (Inr [company_named ''Zeta''],
        [BrowserGet ''https://getlatka.com/saas-companies'',
         HttpGet ''https://getlatka.com/saas-companies'' 10,
         BrowserGet ''https://getlatka.com/saas-companies?page=2'',
         HttpGet ''https://getlatka.com/saas-companies?page=2'' 10])"
  by (simp add: scrape_with_requests_fallback_def scraper_facts upto_small fallback_page_list_world)

lemma fallback_rejecting_world:
  "scrape_with_requests_fallback browser_scraper rejecting_world
     = (Inl ParserError,
        [BrowserGet ''https://getlatka.com/saas-companies'',
         HttpGet ''https://getlatka.com/saas-companies'' 10])"
  by (simp add: scrape_with_requests_fallback_def scraper_facts upto_small fallback_page_def
        page_urls rejecting_world_facts browser_fetch_zeta)

text \<open>
  The function does not always return the fallback's result after a switch: here the
  navigation fails after page 1 with the record \<open>Acme\<close> gathered, the parser raises on the
  first page the fallback fetches, and the function returns the browser's record.
\<close>

theorem fallback_raising_keeps_browser_records:
  "browser_on browser_scraper \<and> open_base_url rejecting_world = None
   \<and> browser_loop browser_scraper rejecting_world [1 .. pages_to_scrape (config browser_scraper)] []
       = Switched [company_named ''Acme'']
   \<and> fst (scrape_with_requests_fallback browser_scraper rejecting_world) = Inl ParserError
   \<and> fst (scrape_companies_list browser_scraper rejecting_world) = Inr [company_named ''Acme'']"
proof -
  have switched: "browser_loop browser_scraper rejecting_world
      [1 .. pages_to_scrape (config browser_scraper)] [] = Switched [company_named ''Acme'']"
    by (rule browser_loop_acme) (simp_all add: rejecting_world_facts)
  have "fst (scrape_companies_list browser_scraper rejecting_world) = Inr [company_named ''Acme'']"
    by (simp add: scrape_companies_list_def scraper_facts(2) rejecting_world_facts(1) switched
          fallback_rejecting_world after_browser_def company_named_def)
  with switched show ?thesis
    by (simp add: scraper_facts(2) rejecting_world_facts(1) fallback_rejecting_world)
qed

theorem fallback_replaces_browser_records_witness:
  "browser_on browser_scraper \<and> open_base_url list_world = None
   \<and> browser_loop browser_scraper list_world [1 .. pages_to_scrape (config browser_scraper)] []
       = Switched [company_named ''Acme'']
   \<and> scrape_companies_list browser_scraper list_world
       = (Inr [company_named ''Zeta''],
          [BrowserGet ''https://getlatka.com/saas-companies'',
           BrowserGet ''https://getlatka.com/saas-companies'',
           HttpGet ''https://getlatka.com/saas-companies'' 10,
           BrowserGet ''https://getlatka.com/saas-companies?page=2'',
           HttpGet ''https://getlatka.com/saas-companies?page=2'' 10])
   \<and> fallback_records browser_scraper list_world 1 = [company_named ''Zeta'']
   \<and> fallback_records browser_scraper list_world 2 = []
   \<and> isl (fst (scrape_with_requests_fallback browser_scraper rejecting_world))
   \<and> browser_loop browser_scraper rejecting_world [1 .. pages_to_scrape (config browser_scraper)] []
       = Switched [company_named ''Acme'']
   \<and> fst (scrape_companies_list browser_scraper rejecting_world) = Inr [company_named ''Acme'']"
proof -
  have on: "browser_on browser_scraper" by (rule scraper_facts)
  have opened: "open_base_url list_world = None" "open_base_url rejecting_world = None"
    by (simp_all add: list_world_facts rejecting_world_facts)
  have switched: "browser_loop browser_scraper list_world
      [1 .. pages_to_scrape (config browser_scraper)] [] = Switched [company_named ''Acme'']"
    by (rule browser_loop_acme) (simp_all add: list_world_facts parse_list_world urljoin_list_world)
  have switched': "browser_loop browser_scraper rejecting_world
      [1 .. pages_to_scrape (config browser_scraper)] [] = Switched [company_named ''Acme'']"
    by (rule browser_loop_acme) (simp_all add: rejecting_world_facts)
  have raised: "isl (fst (scrape_with_requests_fallback browser_scraper rejecting_world))"
    by (simp add: fallback_rejecting_world)
  have records: "fallback_records browser_scraper list_world 1 = [company_named ''Zeta'']"
    "fallback_records browser_scraper list_world 2 = []"
    by (simp_all add: fallback_records_def fallback_page_list_world)
  from fallback_replaces_browser_records [OF on opened(1) switched]
  have 1: "scrape_companies_list browser_scraper list_world
       = (Inr [company_named ''Zeta''],
          [BrowserGet ''https://getlatka.com/saas-companies'',
           BrowserGet ''https://getlatka.com/saas-companies'',
           HttpGet ''https://getlatka.com/saas-companies'' 10,
           BrowserGet ''https://getlatka.com/saas-companies?page=2'',
           HttpGet ''https://getlatka.com/saas-companies?page=2'' 10])"
    by (simp add: fallback_list_world scraper_facts)
  from fallback_replaces_browser_records [OF on opened(2) switched'] raised
  have 2: "fst (scrape_companies_list browser_scraper rejecting_world) = Inr [company_named ''Acme'']"
    by (simp add: company_named_def)
  from on opened switched switched' raised records 1 2 show ?thesis by simp
qed

section \<open>Properties of the ranged scrape\<close>

text \<open>Different pages have different addresses.\<close>

lemma digit_val_nth: "k < 10 \<Longrightarrow> digit_val (''0123456789'' ! k) = k"
proof -
  assume "k < 10"
  then have "k \<in> {0, 1, 2, 3, 4, 5, 6, 7, 8, 9}" by auto
  then show ?thesis by (auto simp: digit_val_def)
qed

lemma read_nat_snoc: "read_nat (s @ [c]) = 10 * read_nat s + digit_val c"
  by (simp add: read_nat_def)

lemma read_nat_str_nat: "read_nat (str_nat n) = n"
proof (induction n rule: str_nat.induct)
  case (1 n)
  show ?case
  proof (cases "n < 10")
    case True
    then show ?thesis by (simp add: str_nat.simps [of n] read_nat_def digit_val_nth)
  next
    case False
    with 1 have "read_nat (str_nat (n div 10)) = n div 10" by simp
    with False show ?thesis
      by (simp add: str_nat.simps [of n] read_nat_snoc digit_val_nth)
  qed
qed

lemma str_nat_inject: "str_nat m = str_nat n \<Longrightarrow> m = n"
proof -
  assume "str_nat m = str_nat n"
  then have "read_nat (str_nat m) = read_nat (str_nat n)" by simp
  then show ?thesis by (simp add: read_nat_str_nat)
qed

lemma str_nat_nonempty: "str_nat n \<noteq> []"
  by (simp add: str_nat.simps [of n])

lemma page_url_inject:
  assumes "1 \<le> p" and "1 \<le> q" and "page_url self p = page_url self q"
  shows "p = q"
proof -
  have tail: "''?page='' @ str_int r \<noteq> []" for r by simp
  show ?thesis
  proof (cases "1 < p"; cases "1 < q")
    assume "1 < p" "1 < q"
    with assms(3) have "str_nat (nat p) = str_nat (nat q)"
      by (simp add: page_url_def str_int_def)
    then have "nat p = nat q" by (rule str_nat_inject)
    with \<open>1 < p\<close> \<open>1 < q\<close> show ?thesis by simp
  next
    assume "1 < p" "\<not> 1 < q"
    with assms(3) show ?thesis by (simp add: page_url_def)
  next
    assume "\<not> 1 < p" "1 < q"
    with assms(3) show ?thesis by (simp add: page_url_def)
  next
    assume "\<not> 1 < p" "\<not> 1 < q"
    with assms(1,2) show ?thesis by simp
  qed
qed

lemma range_pages_companies:
  "fst (range_pages self world pages) = concat (map (page_records self world) pages)"
  by (induction pages) (simp_all add: Let_def page_records_def split: sum.splits)

lemma range_pages_events:
  "snd (range_pages self world pages) = concat (map (\<lambda>p. snd (scrape_specific_page self world p)) pages)"
  by (induction pages) (simp_all add: Let_def split: sum.splits)

lemma specific_page_requests:
  assumes "e \<in> set (snd (scrape_specific_page self world p))" and "requested e = Some url"
  shows "url = page_url self p"
proof -
  have g: "\<forall>e \<in> set (snd (get_page_content self world (page_url self p))).
             requested e = Some (page_url self p)"
    using get_page_content_requests by blast
  from assms g show ?thesis
    by (auto simp: scrape_specific_page_def Let_def requested_def split: if_splits option.splits)
qed

text \<open>
  Claim C4, as the code has it. For a range with \<open>1 \<le> start \<le> end\<close> the merged list is
  the concatenation of what \<^verbatim>\<open>scrape_specific_page\<close> returns for each page of the range, a
  page whose scrape raises adding nothing while the loop goes on, so its length is the sum
  of the per-page counts; every address requested is that of a page of the range, and no
  page outside the range has its address requested; and the
  function returns the merged list unless that list is not empty and writing the file of
  the range raises, in which case the exception leaves the function.
\<close>

theorem page_range_merges_pages:
  assumes "1 \<le> start_page" and "start_page \<le> end_page"
  shows "length (concat (map (page_records self world) [start_page .. end_page]))
           = sum_list (map (\<lambda>p. length (page_records self world p)) [start_page .. end_page])
    \<and> (\<forall>e \<in> set (snd (scrape_page_range self world start_page end_page)). \<forall>url.
          requested e = Some url \<longrightarrow> (\<exists>p \<in> {start_page .. end_page}. url = page_url self p))
    \<and> (\<forall>e \<in> set (snd (scrape_page_range self world start_page end_page)). \<forall>q.
          1 \<le> q \<and> requested e = Some (page_url self q) \<longrightarrow> start_page \<le> q \<and> q \<le> end_page)
    \<and> (concat (map (page_records self world) [start_page .. end_page]) = []
          \<or> save_to_json world (range_file start_page end_page) = None
        \<longrightarrow> fst (scrape_page_range self world start_page end_page)
              = Inr (concat (map (page_records self world) [start_page .. end_page])))
    \<and> (\<forall>ex. concat (map (page_records self world) [start_page .. end_page]) \<noteq> []
              \<and> save_to_json world (range_file start_page end_page) = Some ex
        \<longrightarrow> fst (scrape_page_range self world start_page end_page) = Inl ex)"
proof (intro conjI)
  show "length (concat (map (page_records self world) [start_page .. end_page]))
           = sum_list (map (\<lambda>p. length (page_records self world p)) [start_page .. end_page])"
    by (simp add: length_concat comp_def)
next
  show "\<forall>e \<in> set (snd (scrape_page_range self world start_page end_page)). \<forall>url.
          requested e = Some url \<longrightarrow> (\<exists>p \<in> {start_page .. end_page}. url = page_url self p)"
  proof (intro ballI allI impI)
    fix e url
    assume e: "e \<in> set (snd (scrape_page_range self world start_page end_page))"
      and r: "requested e = Some url"
    from r have "e \<noteq> SaveJson (range_file start_page end_page)" by (auto simp: requested_def)
    with e assms have "e \<in> set (snd (range_pages self world [start_page .. end_page]))"
      by (auto simp: scrape_page_range_def Let_def split: if_splits option.splits)
    then obtain p where p: "p \<in> {start_page .. end_page}"
      and "e \<in> set (snd (scrape_specific_page self world p))"
      by (auto simp: range_pages_events)
    with r have "url = page_url self p" by (simp add: specific_page_requests)
    with p show "\<exists>p \<in> {start_page .. end_page}. url = page_url self p" by blast
  qed
  then show "\<forall>e \<in> set (snd (scrape_page_range self world start_page end_page)). \<forall>q.
          1 \<le> q \<and> requested e = Some (page_url self q) \<longrightarrow> start_page \<le> q \<and> q \<le> end_page"
  proof (intro ballI allI impI)
    fix e q
    assume in_range: "\<forall>e \<in> set (snd (scrape_page_range self world start_page end_page)). \<forall>url.
          requested e = Some url \<longrightarrow> (\<exists>p \<in> {start_page .. end_page}. url = page_url self p)"
      and e: "e \<in> set (snd (scrape_page_range self world start_page end_page))"
      and q: "1 \<le> q \<and> requested e = Some (page_url self q)"
    then obtain p where p: "p \<in> {start_page .. end_page}" "page_url self q = page_url self p"
      by blast
    with assms(1) q have "q = p" by (intro page_url_inject) auto
    with p show "start_page \<le> q \<and> q \<le> end_page" by simp
  qed
next
  show "concat (map (page_records self world) [start_page .. end_page]) = []
          \<or> save_to_json world (range_file start_page end_page) = None
        \<longrightarrow> fst (scrape_page_range self world start_page end_page)
              = Inr (concat (map (page_records self world) [start_page .. end_page]))"
    using assms by (auto simp: scrape_page_range_def Let_def range_pages_companies)
next
  show "\<forall>ex. concat (map (page_records self world) [start_page .. end_page]) \<noteq> []
              \<and> save_to_json world (range_file start_page end_page) = Some ex
        \<longrightarrow> fst (scrape_page_range self world start_page end_page) = Inl ex"
    using assms by (auto simp: scrape_page_range_def Let_def range_pages_companies)
qed

text \<open>Evaluation of the example world: the browser shows \<open>Acme\<close>, the file of page 3 fails.\<close>

lemma specific_page_acme:
  assumes "1 \<le> p"
  shows "fst (scrape_specific_page browser_scraper list_world p)
           = (if page_file p = ''companies_page_3.json'' then Inl IOError else Inr [company_named ''Acme''])"
proof -
  have rows: "specific_page list_world u = Inr [row_named ''Acme'']" for u
    by (simp add: list_world_def)
  have save: "save_to_json list_world (page_file p)
      = (if page_file p = ''companies_page_3.json'' then Some IOError else None)"
    by (simp add: list_world_def page_file_def)
  from assms show ?thesis
    by (simp add: scrape_specific_page_def Let_def scraper_facts rows save
          companies_of_named_row parse_list_world urljoin_list_world py_strip_names)
qed

lemma page_files: "page_file 1 \<noteq> ''companies_page_3.json''" "page_file 2 \<noteq> ''companies_page_3.json''"
  "page_file 3 = ''companies_page_3.json''" "page_file 4 \<noteq> ''companies_page_3.json''"
  by (simp_all add: page_file_def str_int_small)

lemma range_files: "range_file 1 2 = ''companies_pages_1_to_2.json''"
  "range_file 2 4 = ''companies_pages_2_to_4.json''"
  by (simp_all add: range_file_def str_int_small)

lemma page_records_acme:
  "page_records browser_scraper list_world 1 = [company_named ''Acme'']"
  "page_records browser_scraper list_world 2 = [company_named ''Acme'']"
  "page_records browser_scraper list_world 3 = []"
  "page_records browser_scraper list_world 4 = [company_named ''Acme'']"
  by (simp_all add: page_records_def specific_page_acme page_files)

text \<open>
  Claim C4 as stated fails where the final write fails: the range 1 to 2 yields two
  records, writing their file raises, and the function returns no list.
\<close>

theorem page_range_save_failure:
  "(1::int) \<le> 1 \<and> (1::int) \<le> 2
   \<and> fst (scrape_page_range browser_scraper list_world 1 2) = Inl IOError"
proof -
  have fail: "save_to_json list_world ''companies_pages_1_to_2.json'' = Some IOError"
    by (simp add: list_world_def)
  have merged: "fst (range_pages browser_scraper list_world [1 .. 2])
      = [company_named ''Acme'', company_named ''Acme'']"
    unfolding range_pages_companies by (simp add: upto_small page_records_acme)
  show ?thesis
    by (simp add: scrape_page_range_def Let_def merged range_files fail)
qed

theorem page_range_merges_pages_witness:
  "(1::int) \<le> 2 \<and> (2::int) \<le> 4
   \<and> fst (scrape_specific_page browser_scraper list_world 3) = Inl IOError
   \<and> fst (scrape_page_range browser_scraper list_world 2 4)
       = Inr [company_named ''Acme'', company_named ''Acme'']"
proof -
  have a: "(1::int) \<le> 2" and b: "(2::int) \<le> 4" by simp_all
  have skipped: "fst (scrape_specific_page browser_scraper list_world 3) = Inl IOError"
    by (simp add: specific_page_acme page_files)
  have saved: "save_to_json list_world (range_file 2 4) = None"
    by (simp add: range_files list_world_def)
  from page_range_merges_pages [OF a b, of browser_scraper list_world] saved
  have "fst (scrape_page_range browser_scraper list_world 2 4)
       = Inr (concat (map (page_records browser_scraper list_world) [2 .. 4]))"
    by blast
  then have "fst (scrape_page_range browser_scraper list_world 2 4)
       = Inr [company_named ''Acme'', company_named ''Acme'']"
    by (simp add: upto_small page_records_acme)
  with skipped show ?thesis by simp
qed

section \<open>Properties of the record merge\<close>

lemma dict_get_set: "dict_get (dict_set k v d) k' = (if k' = k then Some v else dict_get d k')"
  by (induction d) (auto simp: dict_get_def)

lemma keys_dict_set: "set (map fst (dict_set k v d)) = insert k (set (map fst d))"
  by (induction d) force+

lemma is_dict_set: "is_dict d \<Longrightarrow> is_dict (dict_set k v d)"
proof (induction d)
  case Nil
  then show ?case by (simp add: is_dict_def)
next
  case (Cons p d)
  obtain k' v' where p: "p = (k', v')" by (cases p)
  from Cons have d: "is_dict d" and nk: "k' \<notin> set (map fst d)" by (auto simp: is_dict_def p)
  show ?case
  proof (cases "k' = k")
    case True
    with Cons.prems show ?thesis by (simp add: is_dict_def p)
  next
    case False
    from nk False have "k' \<notin> set (map fst (dict_set k v d))" by (simp only: keys_dict_set) simp
    with Cons.IH [OF d] False show ?thesis by (simp add: is_dict_def p)
  qed
qed

lemma dict_get_fold_absent:
  "k \<notin> fst ` set b \<Longrightarrow> dict_get (fold (\<lambda>(k, v). dict_set k v) b a) k = dict_get a k"
  by (induction b arbitrary: a) (auto simp: dict_get_set)

lemma dict_get_fold_present:
  "distinct (map fst b) \<Longrightarrow> (k, v) \<in> set b \<Longrightarrow> dict_get (fold (\<lambda>(k, v). dict_set k v) b a) k = Some v"
proof (induction b arbitrary: a)
  case Nil
  then show ?case by simp
next
  case (Cons p b)
  obtain k' v' where p: "p = (k', v')" by (cases p)
  show ?case
  proof (cases "(k, v) = p")
    case True
    with Cons.prems p have "k \<notin> fst ` set b" by auto
    then have "dict_get (fold (\<lambda>(k, v). dict_set k v) b (dict_set k v a)) k = dict_get (dict_set k v a) k"
      by (rule dict_get_fold_absent)
    with True p show ?thesis by (simp add: dict_get_set)
  next
    case False
    with Cons.prems have "(k, v) \<in> set b" "distinct (map fst b)" by auto
    with Cons.IH show ?thesis by simp
  qed
qed

lemma is_dict_merge: "is_dict a \<Longrightarrow> is_dict (dict_merge a b)"
  unfolding dict_merge_def
  by (induction b arbitrary: a) (auto simp: is_dict_set)

lemma is_dict_empty_company_data: "is_dict empty_company_data"
  by (simp add: is_dict_def empty_company_data_def company_keys_def)

text \<open>The display \<^verbatim>\<open>{**a, **b}\<close> read key by key.\<close>

lemma dict_merge_get:
  assumes "is_dict b"
  shows "dict_get b k = Some v \<Longrightarrow> dict_get (dict_merge a b) k = Some v"
    and "dict_get b k = None \<Longrightarrow> dict_get (dict_merge a b) k = dict_get a k"
proof -
  assume "dict_get b k = Some v"
  then have "(k, v) \<in> set b" by (simp add: dict_get_def map_of_SomeD)
  with assms show "dict_get (dict_merge a b) k = Some v"
    unfolding dict_merge_def is_dict_def by (rule dict_get_fold_present)
next
  assume "dict_get b k = None"
  then have "k \<notin> fst ` set b" by (simp add: dict_get_def map_of_eq_None_iff)
  then show "dict_get (dict_merge a b) k = dict_get a k"
    unfolding dict_merge_def by (rule dict_get_fold_absent)
qed

text \<open>What a round of each enrichment loop returns when the profile page is had and parsed.\<close>

lemma process_company_enriched:
  assumes "dict_get company ''Company Hyperlink'' = Some (PStr profile_url)" and "profile_url \<noteq> []"
    and "time_sleep world (delay_between_requests (config self)) = None"
    and "fst (get_page_content self world profile_url) = Some content" and "content \<noteq> []"
    and "parse_html world content = Inr soup"
  shows "fst (process_company self world company) = dict_merge company (profile_of world soup)"
  using assms by (simp add: process_company_def Let_def)

lemma enrich_with_browser_enriched:
  assumes "dict_get company ''Company Hyperlink'' = Some (PStr profile_url)" and "profile_url \<noteq> []"
    and "browser_on self" and "profile_page world profile_url = Inr content"
    and "parse_html world content = Inr soup"
  shows "enrich_with_browser self world company = dict_merge company (profile_of world soup)"
  using assms by (simp add: enrich_with_browser_def scrape_company_profile_def Let_def)

text \<open>
  Claim C6. Take the record at any place of the list handed to an enrichment loop, with a
  profile link, whose profile page is had and parsed, \<open>profile_data\<close> being the profile
  record extracted from it. The record that \<^verbatim>\<open>_process_companies_chunk\<close> returns at that
  place (the sleep returning and the fetch giving content) and the record that the
  sequential loop of \<^verbatim>\<open>scrape_all_company_profiles\<close> returns at that place (with a
  browser) map every key of the profile record to the profile's value, also when the list
  record has the key, and every other key to what the list record has for it: a field the
  profile lacks never erases a list value.
\<close>

theorem enrichment_merges_profile:
  assumes "is_dict profile_data" and "i < length companies"
    and "dict_get (companies ! i) ''Company Hyperlink'' = Some (PStr profile_url)"
    and "profile_url \<noteq> []"
    and "parse_html world content = Inr soup" and "profile_of world soup = profile_data"
  shows "(time_sleep world (delay_between_requests (config self)) = None
          \<and> fst (get_page_content self world profile_url) = Some content \<and> content \<noteq> []
        \<longrightarrow> (\<forall>k v. dict_get profile_data k = Some v \<longrightarrow>
                dict_get (fst (process_companies_chunk self world companies) ! i) k = Some v)
            \<and> (\<forall>k. dict_get profile_data k = None \<longrightarrow>
                dict_get (fst (process_companies_chunk self world companies) ! i) k
                  = dict_get (companies ! i) k))
    \<and> (browser_on self \<and> profile_page world profile_url = Inr content
        \<longrightarrow> (\<forall>k v. dict_get profile_data k = Some v \<longrightarrow>
                dict_get (enrich_all_with_browser self world companies ! i) k = Some v)
            \<and> (\<forall>k. dict_get profile_data k = None \<longrightarrow>
                dict_get (enrich_all_with_browser self world companies ! i) k
                  = dict_get (companies ! i) k))"
proof (intro conjI impI)
  assume fetched: "time_sleep world (delay_between_requests (config self)) = None
          \<and> fst (get_page_content self world profile_url) = Some content \<and> content \<noteq> []"
  from assms(2) have "fst (process_companies_chunk self world companies) ! i
      = fst (process_company self world (companies ! i))"
    by (simp add: process_companies_chunk_def)
  also from fetched assms(3-6) have "\<dots> = dict_merge (companies ! i) profile_data"
    by (simp add: process_company_enriched)
  finally have merged: "fst (process_companies_chunk self world companies) ! i
      = dict_merge (companies ! i) profile_data" .
  from assms(1) show "\<forall>k v. dict_get profile_data k = Some v \<longrightarrow>
      dict_get (fst (process_companies_chunk self world companies) ! i) k = Some v"
    unfolding merged by (simp add: dict_merge_get)
  from assms(1) show "\<forall>k. dict_get profile_data k = None \<longrightarrow>
      dict_get (fst (process_companies_chunk self world companies) ! i) k = dict_get (companies ! i) k"
    unfolding merged by (simp add: dict_merge_get)
next
  assume loaded: "browser_on self \<and> profile_page world profile_url = Inr content"
  from assms(2) have "enrich_all_with_browser self world companies ! i
      = enrich_with_browser self world (companies ! i)"
    by (simp add: enrich_all_with_browser_def)
  also from loaded assms(3-6) have "\<dots> = dict_merge (companies ! i) profile_data"
    by (simp add: enrich_with_browser_enriched)
  finally have merged: "enrich_all_with_browser self world companies ! i
      = dict_merge (companies ! i) profile_data" .
  from assms(1) show "\<forall>k v. dict_get profile_data k = Some v \<longrightarrow>
      dict_get (enrich_all_with_browser self world companies ! i) k = Some v"
    unfolding merged by (simp add: dict_merge_get)
  from assms(1) show "\<forall>k. dict_get profile_data k = None \<longrightarrow>
      dict_get (enrich_all_with_browser self world companies ! i) k = dict_get (companies ! i) k"
    unfolding merged by (simp add: dict_merge_get)
qed

text \<open>
  In the example world the record \<open>Acme\<close> with revenue \<open>$1M\<close> gets the profile's revenue
  \<open>$2M\<close> and employee count 7 and keeps its name, in both loops.
\<close>

lemma http_fetch_zeta:
  assumes "fetch world u = zeta_fetch"
  shows "get_page_content http_scraper world u = (Some ''Zeta'', [HttpGet u 10])"
  using assms
  by (simp add: get_page_content_def http_path_def http_block_cases scraper_facts zeta_fetch_def)

theorem enrichment_merges_profile_witness:
  "is_dict [(''employee_count'', PInt 7), (''Revenue'', PStr ''$2M'')]
   \<and> dict_get linked_company ''Revenue'' = Some (PStr ''$1M'')
   \<and> dict_get linked_company ''employee_count'' = None
   \<and> dict_get (fst (process_companies_chunk http_scraper list_world [linked_company]) ! 0) ''Revenue''
       = Some (PStr ''$2M'')
   \<and> dict_get (fst (process_companies_chunk http_scraper list_world [linked_company]) ! 0)
        ''employee_count'' = Some (PInt 7)
   \<and> dict_get (fst (process_companies_chunk http_scraper list_world [linked_company]) ! 0)
        ''Company Name'' = Some (PStr ''Acme'')
   \<and> dict_get (enrich_all_with_browser browser_scraper list_world [linked_company] ! 0) ''Revenue''
       = Some (PStr ''$2M'')
   \<and> dict_get (enrich_all_with_browser browser_scraper list_world [linked_company] ! 0)
        ''employee_count'' = Some (PInt 7)
   \<and> dict_get (enrich_all_with_browser browser_scraper list_world [linked_company] ! 0)
        ''Company Name'' = Some (PStr ''Acme'')"
proof -
  let ?profile = "[(''employee_count'', PInt 7), (''Revenue'', PStr ''$2M'')]"
  let ?u = "''https://getlatka.com/saas-companies''"
  let ?soup = "Element ''[document]'' [] [table_row 15 ''Zeta'']"
  have d: "is_dict ?profile" by (simp add: is_dict_def)
  have i: "0 < length [linked_company]" by simp
  have link: "dict_get ([linked_company] ! 0) ''Company Hyperlink'' = Some (PStr ?u)"
    by (simp add: linked_company_def dict_get_def)
  have u: "?u \<noteq> []" by simp
  have parsed: "parse_html list_world ''Zeta'' = Inr ?soup" by (rule parse_list_world)
  have profile: "profile_of list_world ?soup = ?profile" by (simp add: list_world_def)
  have fetched: "time_sleep list_world (delay_between_requests (config http_scraper)) = None
      \<and> fst (get_page_content http_scraper list_world ?u) = Some ''Zeta'' \<and> ''Zeta'' \<noteq> []"
    by (simp add: scraper_facts list_world_facts http_fetch_zeta)
  have loaded: "browser_on browser_scraper \<and> profile_page list_world ?u = Inr ''Zeta''"
    by (simp add: scraper_facts list_world_def)
  have given: "dict_get linked_company ''Revenue'' = Some (PStr ''$1M'')"
    "dict_get linked_company ''employee_count'' = None"
    "dict_get linked_company ''Company Name'' = Some (PStr ''Acme'')"
    by (simp_all add: linked_company_def dict_get_def)
  have got: "dict_get ?profile ''Revenue'' = Some (PStr ''$2M'')"
    "dict_get ?profile ''employee_count'' = Some (PInt 7)"
    "dict_get ?profile ''Company Name'' = None"
    by (simp_all add: dict_get_def)
  from enrichment_merges_profile [OF d i link u parsed profile, of http_scraper] fetched got given
  have 1: "dict_get (fst (process_companies_chunk http_scraper list_world [linked_company]) ! 0)
        ''Revenue'' = Some (PStr ''$2M'')"
    "dict_get (fst (process_companies_chunk http_scraper list_world [linked_company]) ! 0)
        ''employee_count'' = Some (PInt 7)"
    "dict_get (fst (process_companies_chunk http_scraper list_world [linked_company]) ! 0)
        ''Company Name'' = Some (PStr ''Acme'')"
    by simp_all
  from enrichment_merges_profile [OF d i link u parsed profile, of browser_scraper] loaded got given
  have 2: "dict_get (enrich_all_with_browser browser_scraper list_world [linked_company] ! 0)
        ''Revenue'' = Some (PStr ''$2M'')"
    "dict_get (enrich_all_with_browser browser_scraper list_world [linked_company] ! 0)
        ''employee_count'' = Some (PInt 7)"
    "dict_get (enrich_all_with_browser browser_scraper list_world [linked_company] ! 0)
        ''Company Name'' = Some (PStr ''Acme'')"
    by simp_all
  from d given(1,2) 1 2 show ?thesis by simp
qed

section \<open>Properties of the command line\<close>

lemma reject_result:
  "fst (reject msg) = Inr (Some 1) \<and> snd (reject msg) = (Line msg # usage_text, [])"
  by (simp add: reject_def)

lemma main_body_rejects:
  assumes "bad_arguments argv" and "construct world = None"
  shows "\<exists>msg. main_body world argv = reject msg"
  using assms
  by (auto simp: bad_arguments_def main_body_def split: sum.splits)

text \<open>
  Claim C8, as the code has it. An argument list the command line turns down (a page
  below 1, a pair with the start below 1 or the end below the start, an argument that is
  not a number, more than two arguments) ends with exit status 1 and starts no run, hence
  no page fetch; when the scraper object was constructed, what is printed is an error line
  followed by the usage text; when constructing it raises, the outer handler prints that
  exception and no usage text.
\<close>

theorem bad_arguments_rejected:
  assumes "bad_arguments argv"
  shows "fst (main world argv) = 1
    \<and> snd (snd (main world argv)) = []
    \<and> (construct world = None \<longrightarrow> (\<exists>msg. fst (snd (main world argv)) = Line msg # usage_text))
    \<and> (\<forall>ex. construct world = Some ex \<longrightarrow> fst (snd (main world argv)) = [ErrorLine ex])"
proof (cases "construct world")
  case None
  with assms obtain msg where "main_body world argv = reject msg"
    using main_body_rejects by blast
  with None show ?thesis by (simp add: main_def reject_def)
next
  case (Some ex)
  then have "main_body world argv = (Inl ex, ([], []))" by (simp add: main_body_def)
  with Some show ?thesis by (simp add: main_def)
qed

lemma py_int_examples:
  "py_int ''0'' = Inr 0" "py_int ''5'' = Inr 5" "py_int ''3'' = Inr 3" "py_int ''two'' = Inl ValueError"
  by (simp_all add: py_int_def num_strip_def is_num_space_def take_sign_def digitpart_def is_digit_def
        digit_val_def)

text \<open>
  \<^verbatim>\<open>int\<close> skips a no-break space around the digits and does not skip the separator
  characters 28 to 31: the first argument below starts the run of page 5, the second is
  turned down.
\<close>

lemma py_int_spaces:
  "py_int (CHR 0xA0 # ''5'') = Inr 5" "py_int (CHR 0x1C # ''5'') = Inl ValueError"
  by (simp_all add: py_int_def num_strip_def is_num_space_def take_sign_def digitpart_def is_digit_def
        digit_val_def)

lemma no_break_space_page_runs:
  "\<not> bad_arguments [''main.py'', CHR 0xA0 # ''5'']
   \<and> main working_setup [''main.py'', CHR 0xA0 # ''5'']
       = (0, [Line ''\<newline>Check the 'output' directory for results.''], [RunSinglePage 5])"
  by (simp add: bad_arguments_def py_int_spaces main_def main_body_def working_setup_def finish_def)

text \<open>
  Claim C8 as stated fails where the scraper cannot be constructed: the page argument 0
  ends in status 1 with no run started, but the usage text is not printed.
\<close>

theorem usage_missing_when_construction_fails:
  "bad_arguments [''main.py'', ''0'']
   \<and> main broken_setup [''main.py'', ''0''] = (1, [ErrorLine IOError], [])
   \<and> Line ''\<newline>Usage:'' \<notin> set (fst (snd (main broken_setup [''main.py'', ''0''])))"
  by (simp add: bad_arguments_def py_int_examples main_def main_body_def broken_setup_def)

theorem bad_arguments_rejected_witness:
  "bad_arguments [''main.py'', ''5'', ''3'']
   \<and> bad_arguments [''main.py'', ''two'']
   \<and> bad_arguments [''main.py'', ''1'', ''2'', ''3'']
   \<and> bad_arguments [''main.py'', CHR 0x1C # ''5'']
   \<and> main working_setup [''main.py'', CHR 0x1C # ''5'']
       = (1, Line ''\<newline>Error: Please provide a valid page number'' # usage_text, [])
   \<and> fst (main working_setup [''main.py'', ''5'', ''3'']) = 1
   \<and> snd (snd (main working_setup [''main.py'', ''5'', ''3''])) = []
   \<and> fst (snd (main working_setup [''main.py'', ''5'', ''3'']))
       = Line ''\<newline>Error: End page must be greater than or equal to start page'' # usage_text"
proof -
  have b: "bad_arguments [''main.py'', ''5'', ''3'']" "bad_arguments [''main.py'', ''two'']"
    "bad_arguments [''main.py'', ''1'', ''2'', ''3'']"
    "bad_arguments [''main.py'', CHR 0x1C # ''5'']"
    by (simp_all add: bad_arguments_def py_int_examples py_int_spaces)
  have c: "construct working_setup = None" by (simp add: working_setup_def)
  from bad_arguments_rejected [OF b(1), of working_setup] c
  obtain msg where r: "fst (main working_setup [''main.py'', ''5'', ''3'']) = 1"
    "snd (snd (main working_setup [''main.py'', ''5'', ''3''])) = []"
    "fst (snd (main working_setup [''main.py'', ''5'', ''3''])) = Line msg # usage_text"
    by blast
  have "fst (snd (main working_setup [''main.py'', ''5'', ''3'']))
       = Line ''\<newline>Error: End page must be greater than or equal to start page'' # usage_text"
    by (simp add: main_def main_body_def working_setup_def py_int_examples reject_def)
  moreover have "main working_setup [''main.py'', CHR 0x1C # ''5'']
       = (1, Line ''\<newline>Error: Please provide a valid page number'' # usage_text, [])"
    using bad_arguments_rejected [OF b(4), of working_setup] c
    by (simp add: main_def main_body_def working_setup_def py_int_spaces reject_def)
  ultimately show ?thesis using b r by simp
qed

end
